theory Spec2Isabelle
  imports Main "HOL-Library.Word"
begin

section \<open>Strings\<close>

text \<open>
  Python strings are modelled as \<^typ>\<open>string\<close>; a \<^typ>\<open>char\<close> stands for a code point
  below 256. \<open>str.lower\<close> on such a code point moves the ASCII capitals and the Latin-1
  capitals (192 to 222 without the multiplication sign 215) up by 32 and leaves every
  other code point alone.
\<close>

definition lower_char :: "char \<Rightarrow> char" where
  "lower_char c =
     (let n = (of_char c :: nat)
      in if (65 \<le> n \<and> n \<le> 90) \<or> (192 \<le> n \<and> n \<le> 222 \<and> n \<noteq> 215)
         then char_of (n + 32) else c)"

definition lower :: "string \<Rightarrow> string" where
  "lower s = map lower_char s"

text \<open>\<open>str.upper\<close>, on ASCII letters (the only ones the format codes are made of).\<close>

definition upper_char :: "char \<Rightarrow> char" where
  "upper_char c =
     (let n = (of_char c :: nat)
      in if 97 \<le> n \<and> n \<le> 122 then char_of (n - 32) else c)"

definition upper :: "string \<Rightarrow> string" where
  "upper s = map upper_char s"

text \<open>\<open>s.lstrip('.')\<close>: drop the leading dots.\<close>

definition lstrip_dot :: "string \<Rightarrow> string" where
  "lstrip_dot s = dropWhile (\<lambda>c. c = CHR ''.'') s"

section \<open>The capability registry (keyboards/inline.py)\<close>

text \<open>\<open>FILE_TYPE_MAP\<close>, in the order of the dictionary literal.\<close>

definition FILE_TYPE_MAP :: "(string \<times> string) list" where
  "FILE_TYPE_MAP =
     [(''jpg'', ''image''), (''jpeg'', ''image''), (''png'', ''image''),
      (''webp'', ''image''), (''bmp'', ''image''), (''heic'', ''image''),
      (''docx'', ''document''), (''doc'', ''document''), (''pdf'', ''pdf''),
      (''txt'', ''text''), (''rtf'', ''document''), (''odt'', ''document''),
      (''xlsx'', ''spreadsheet''), (''xls'', ''spreadsheet''), (''csv'', ''spreadsheet''),
      (''mp3'', ''audio''), (''ogg'', ''audio''), (''wav'', ''audio''),
      (''flac'', ''audio''), (''oga'', ''audio''),
      (''mp4'', ''video''), (''avi'', ''video''), (''mov'', ''video''), (''mkv'', ''video'')]"

text \<open>
  One entry of \<open>CONVERSION_OPTIONS\<close>. The emoji of an entry is kept by its code points'
  names, since only its identity matters.
\<close>

record options =
  formats :: "string list"
  emoji :: string
  names :: "(string \<times> string) list"

definition CONVERSION_OPTIONS :: "(string \<times> options) list" where
  "CONVERSION_OPTIONS =
     [(''image'',
        \<lparr>formats = [''jpg'', ''png'', ''webp'', ''bmp'', ''pdf''],
         emoji = ''U+1F5BC U+FE0F'',
         names = [(''jpg'', ''JPEG''), (''png'', ''PNG''), (''webp'', ''WebP''),
                  (''bmp'', ''BMP''), (''pdf'', ''PDF'')]\<rparr>),
      (''document'',
        \<lparr>formats = [''pdf'', ''txt'', ''docx''],
         emoji = ''U+1F4C4'',
         names = [(''pdf'', ''PDF''), (''txt'', ''TXT''), (''docx'', ''DOCX'')]\<rparr>),
      (''pdf'',
        \<lparr>formats = [''txt'', ''docx''],
         emoji = ''U+1F4D1'',
         names = [(''txt'', ''TXT''), (''docx'', ''DOCX'')]\<rparr>),
      (''text'',
        \<lparr>formats = [''pdf'', ''docx''],
         emoji = ''U+1F4DD'',
         names = [(''pdf'', ''PDF''), (''docx'', ''DOCX'')]\<rparr>),
      (''spreadsheet'',
        \<lparr>formats = [''csv'', ''xlsx''],
         emoji = ''U+1F4CA'',
         names = [(''csv'', ''CSV''), (''xlsx'', ''Excel XLSX'')]\<rparr>),
      (''audio'',
        \<lparr>formats = [''mp3'', ''ogg'', ''wav'', ''flac''],
         emoji = ''U+1F3B5'',
         names = [(''mp3'', ''MP3''), (''ogg'', ''OGG''), (''wav'', ''WAV''),
                  (''flac'', ''FLAC'')]\<rparr>),
      (''video'',
        \<lparr>formats = [''mp4'', ''avi'', ''mkv''],
         emoji = ''U+1F3AC'',
         names = [(''mp4'', ''MP4''), (''avi'', ''AVI''), (''mkv'', ''MKV'')]\<rparr>)]"

definition get_file_type :: "string \<Rightarrow> string option" where
  "get_file_type extension = map_of FILE_TYPE_MAP (lower extension)"

definition get_supported_extensions :: "string list" where
  "get_supported_extensions = map fst FILE_TYPE_MAP"

text \<open>
  The guard \<open>not file_type or file_type not in CONVERSION_OPTIONS\<close> of both functions
  below: the options of the extension's type, or nothing. A type that is the empty
  string counts as missing, as Python's \<open>not\<close> does.
\<close>

definition options_for :: "string \<Rightarrow> (string \<times> options) option" where
  "options_for ext =
     (case get_file_type ext of
        None \<Rightarrow> None
      | Some file_type \<Rightarrow>
          if file_type = [] then None
          else (case map_of CONVERSION_OPTIONS file_type of
                  None \<Rightarrow> None
                | Some opts \<Rightarrow> Some (file_type, opts)))"

text \<open>\<open>options['names'].get(fmt, fmt.upper())\<close>.\<close>

definition display_name :: "options \<Rightarrow> string \<Rightarrow> string" where
  "display_name opts fmt =
     (case map_of (names opts) fmt of Some n \<Rightarrow> n | None \<Rightarrow> upper fmt)"

record button =
  btn_text :: string
  callback_data :: string

text \<open>
  \<open>create_format_keyboard\<close>. The set \<open>exclude_formats\<close> is the extension alone, or both
  spellings of JPEG when the extension is one of them. The keyboard is the list of its
  buttons in the order they are added; \<open>file_id\<close> is not used by the function.
\<close>

definition exclude_formats :: "string \<Rightarrow> string set" where
  "exclude_formats ext =
     (if ext \<in> {''jpg'', ''jpeg''} then {''jpg'', ''jpeg''} else {ext})"

definition keyboard_formats :: "options \<Rightarrow> string \<Rightarrow> string list" where
  "keyboard_formats opts ext = filter (\<lambda>fmt. fmt \<notin> exclude_formats ext) (formats opts)"

definition format_button :: "options \<Rightarrow> string \<Rightarrow> button" where
  "format_button opts target_format =
     \<lparr>btn_text = emoji opts @ '' '' @ display_name opts target_format,
      callback_data = ''cvt:'' @ target_format\<rparr>"

definition cancel_button :: button where
  "cancel_button = \<lparr>btn_text = ''U+274C Cancel'', callback_data = ''cancel''\<rparr>"

definition create_format_keyboard :: "string \<Rightarrow> string \<Rightarrow> button list option" where
  "create_format_keyboard file_extension file_id =
     (let ext = lstrip_dot (lower file_extension)
      in case options_for ext of
           None \<Rightarrow> None
         | Some (file_type, opts) \<Rightarrow>
             Some (map (format_button opts) (keyboard_formats opts ext) @ [cancel_button]))"

text \<open>The target codes a keyboard offers: the payloads of its \<open>cvt:\<close> buttons.\<close>

definition keyboard_targets :: "button list \<Rightarrow> string list" where
  "keyboard_targets kb =
     map (\<lambda>b. drop 4 (callback_data b)) (filter (\<lambda>b. take 4 (callback_data b) = ''cvt:'') kb)"

record conversion_info =
  info_type :: string
  info_emoji :: string
  available_formats :: "string list"
  format_names :: "(string \<times> string) list"

text \<open>\<open>get_conversion_info\<close>: here the filter is \<open>fmt != ext\<close> alone.\<close>

definition get_conversion_info :: "string \<Rightarrow> conversion_info option" where
  "get_conversion_info file_extension =
     (let ext = lstrip_dot (lower file_extension)
      in case options_for ext of
           None \<Rightarrow> None
         | Some (file_type, opts) \<Rightarrow>
             (let available = filter (\<lambda>fmt. fmt \<noteq> ext) (formats opts)
              in Some \<lparr>info_type = file_type,
                       info_emoji = emoji opts,
                       available_formats = available,
                       format_names = map (\<lambda>fmt. (fmt, display_name opts fmt)) available\<rparr>))"

text \<open>
  The known aliases of an extension, as the specification has them: the extension
  itself, and for \<open>jpg\<close> and \<open>jpeg\<close> both spellings, which stand for one format.
\<close>

definition aliases :: "string \<Rightarrow> string set" where
  "aliases ext = (if ext \<in> {''jpg'', ''jpeg''} then {''jpg'', ''jpeg''} else {ext})"

section \<open>The image and video converters (utils/converter\_logic.py)\<close>

subsection \<open>\<open>convert_image\<close>\<close>

text \<open>
  What \<open>_convert\<close> does to the opened image before it saves it, by the image's mode
  (Pillow's mode string) and the target format:
  \<^item> \<open>PasteOnWhite via_rgba with_mask\<close>: a new white RGB image of the same size is
    made and the source pasted on it; \<open>via_rgba\<close> says that the source was converted to
    RGBA first (palette mode), \<open>with_mask\<close> that its last band is the paste mask (the
    mask is \<open>None\<close> otherwise);
  \<^item> \<open>ConvertRGB\<close>: \<open>img.convert('RGB')\<close>;
  \<^item> \<open>PassThrough\<close>: the image is saved as it was opened.
\<close>

datatype image_prep = PasteOnWhite bool bool | ConvertRGB | PassThrough

definition prepare_image :: "string \<Rightarrow> string \<Rightarrow> image_prep" where
  "prepare_image target_format mode =
     (if lower target_format \<in> {''jpg'', ''jpeg'', ''pdf''} then
        (if mode \<in> {''RGBA'', ''P'', ''LA''} then
           (let mode' = (if mode = ''P'' then ''RGBA'' else mode)
            in PasteOnWhite (mode = ''P'') (mode' = ''RGBA''))
         else if mode \<noteq> ''RGB'' then ConvertRGB
         else PassThrough)
      else PassThrough)"

definition format_map :: "(string \<times> string) list" where
  "format_map =
     [(''jpg'', ''JPEG''), (''jpeg'', ''JPEG''), (''png'', ''PNG''),
      (''webp'', ''WEBP''), (''bmp'', ''BMP''), (''pdf'', ''PDF'')]"

definition pil_format :: "string \<Rightarrow> string" where
  "pil_format target_format =
     (case map_of format_map (lower target_format) of
        Some f \<Rightarrow> f
      | None \<Rightarrow> upper target_format)"

definition save_kwargs :: "string \<Rightarrow> (string \<times> string) list" where
  "save_kwargs fmt =
     (if fmt = ''JPEG'' then [(''quality'', ''95''), (''optimize'', ''True'')]
      else if fmt = ''PNG'' then [(''optimize'', ''True'')]
      else if fmt = ''WEBP'' then [(''quality'', ''90'')]
      else [])"

subsection \<open>\<open>convert_video\<close>\<close>

text \<open>\<open>codec_settings\<close>: target format to (vcodec, acodec).\<close>

definition codec_settings :: "(string \<times> (string \<times> string)) list" where
  "codec_settings =
     [(''mp4'', (''libx264'', ''aac'')),
      (''avi'', (''mpeg4'', ''mp3'')),
      (''mkv'', (''libx264'', ''aac''))]"

definition video_settings :: "string \<Rightarrow> string \<times> string" where
  "video_settings target_format =
     (case map_of codec_settings target_format of
        Some s \<Rightarrow> s
      | None \<Rightarrow> (''copy'', ''copy''))"

text \<open>
  The call \<open>ffmpeg.output(ffmpeg.input(input_path), output_path, vcodec=..., acodec=...,
  y=None)\<close> handed to \<open>ffmpeg.run\<close>: the keyword \<open>y\<close> with no value is the transcoder's
  flag \<open>-y\<close>, overwrite without asking.
\<close>

record ffmpeg_call =
  ff_input :: string
  ff_output :: string
  ff_kwargs :: "(string \<times> string option) list"

definition ffmpeg_command :: "string \<Rightarrow> string \<Rightarrow> string \<Rightarrow> ffmpeg_call" where
  "ffmpeg_command input_path output_path target_format =
     (let settings = video_settings target_format
      in \<lparr>ff_input = input_path,
          ff_output = output_path,
          ff_kwargs = [(''vcodec'', Some (fst settings)),
                       (''acodec'', Some (snd settings)),
                       (''y'', None)]\<rparr>)"

section \<open>Incoming files (handlers/files.py)\<close>

subsection \<open>File names\<close>

text \<open>\<open>s.split(sep)\<close> for a separator of one character: the result is never empty.\<close>

fun split_on :: "char \<Rightarrow> string \<Rightarrow> string list" where
  "split_on sep [] = [[]]"
| "split_on sep (c # cs) =
     (if c = sep then [] # split_on sep cs
      else (c # hd (split_on sep cs)) # tl (split_on sep cs))"

text \<open>
  \<open>Path(p).name\<close>: the last component of the path, where empty components and
  components \<open>.\<close> do not count; the empty string when there is none.
\<close>

definition path_name :: "string \<Rightarrow> string" where
  "path_name p =
     (case filter (\<lambda>c. c \<noteq> [] \<and> c \<noteq> ''.'') (split_on CHR ''/'' p) of
        [] \<Rightarrow> []
      | parts \<Rightarrow> last parts)"

text \<open>
  \<open>Path(p).suffix\<close> and \<open>Path(p).stem\<close>: with \<open>i = name.rfind('.')\<close>, the suffix is
  \<open>name[i:]\<close> and the stem \<open>name[:i]\<close> when \<open>0 < i < len(name) - 1\<close>; otherwise the suffix is
  empty and the stem is the name.
\<close>

definition after_last_dot :: "string \<Rightarrow> string" where
  "after_last_dot name = rev (takeWhile (\<lambda>c. c \<noteq> CHR ''.'') (rev name))"

definition has_suffix :: "string \<Rightarrow> bool" where
  "has_suffix name =
     (CHR ''.'' \<in> set name
      \<and> 0 < length name - length (after_last_dot name) - 1
      \<and> after_last_dot name \<noteq> [])"

definition path_suffix :: "string \<Rightarrow> string" where
  "path_suffix p =
     (let name = path_name p
      in if has_suffix name then CHR ''.'' # after_last_dot name else [])"

definition path_stem :: "string \<Rightarrow> string" where
  "path_stem p =
     (let name = path_name p
      in if has_suffix name then take (length name - length (after_last_dot name) - 1) name
         else name)"

subsection \<open>The session of one user\<close>

text \<open>
  The \<open>FSMContext\<close> of a user over the in-memory storage: the state (\<open>None\<close> or the one
  state of \<open>FileState\<close>) and the data dictionary.
\<close>

datatype FileState = waiting_for_format

record session =
  fsm_state :: "FileState option"
  fsm_data :: "string \<rightharpoonup> string"

definition clear :: "session \<Rightarrow> session" where
  "clear s = \<lparr>fsm_state = None, fsm_data = Map.empty\<rparr>"

definition update_data :: "(string \<times> string) list \<Rightarrow> session \<Rightarrow> session" where
  "update_data kvs s = s\<lparr>fsm_data := fsm_data s ++ map_of (rev kvs)\<rparr>"

definition set_state :: "FileState \<Rightarrow> session \<Rightarrow> session" where
  "set_state st s = s\<lparr>fsm_state := Some st\<rparr>"

subsection \<open>\<open>process_file\<close>\<close>

text \<open>
  \<open>MAX_FILE_SIZE\<close>, from the value of the environment variable \<open>MAX_FILE_SIZE_MB\<close>
  (50 when it is not set).
\<close>

definition MAX_FILE_SIZE :: "int \<Rightarrow> int" where
  "MAX_FILE_SIZE max_file_size_mb = max_file_size_mb * 1024 * 1024"

text \<open>
  The message \<open>process_file\<close> answers with, one constructor for each call of
  \<open>message.answer\<close>, with the values the text is built from:
  \<^item> \<open>FileTooBig file_size max_mb\<close>: the file is over the size limit;
  \<^item> \<open>UnsupportedFormat file_name\<close>: the extension is not supported;
  \<^item> \<open>NoFormats file_name\<close>: no target format is available;
  \<^item> \<open>KeyboardError\<close>: no keyboard could be made;
  \<^item> \<open>ChooseFormat emoji file_name file_size keyboard\<close>: the file is accepted.
  The answer is the last effect on every path, after the session has been written, so
  the session does not depend on how the transport fares with it.
\<close>

datatype answer =
    FileTooBig int int
  | UnsupportedFormat string
  | NoFormats string
  | KeyboardError
  | ChooseFormat string string int "button list"

text \<open>\<open>Path(file_name).suffix.lower().lstrip('.') if file_name else ''\<close>\<close>

definition extension_of :: "string \<Rightarrow> string" where
  "extension_of file_name =
     (if file_name \<noteq> [] then lstrip_dot (lower (path_suffix file_name)) else [])"

definition process_file ::
  "int \<Rightarrow> string \<Rightarrow> string \<Rightarrow> int \<Rightarrow> session \<Rightarrow> answer \<times> session" where
  "process_file max_file_size_mb file_id file_name file_size state =
     (if file_size > MAX_FILE_SIZE max_file_size_mb then
        (FileTooBig file_size (MAX_FILE_SIZE max_file_size_mb div (1024 * 1024)), state)
      else
        (let extension = extension_of file_name
         in if extension = [] \<or> extension \<notin> set get_supported_extensions then
              (UnsupportedFormat file_name, state)
            else
              (case get_conversion_info extension of
                 None \<Rightarrow> (NoFormats file_name, state)
               | Some conversion_info \<Rightarrow>
                   if available_formats conversion_info = [] then (NoFormats file_name, state)
                   else
                     (case create_format_keyboard extension file_id of
                        None \<Rightarrow> (KeyboardError, state)
                      | Some keyboard \<Rightarrow>
                          (ChooseFormat (info_emoji conversion_info) file_name file_size keyboard,
                           set_state waiting_for_format
                             (update_data [(''file_id'', file_id),
                                           (''file_name'', file_name),
                                           (''file_extension'', extension)] state))))))"

text \<open>Whether an answer is the rejection for size.\<close>

fun is_too_big :: "answer \<Rightarrow> bool" where
  "is_too_big (FileTooBig _ _) = True"
| "is_too_big _ = False"

section \<open>Reading a CSV source (\<open>convert_spreadsheet\<close>)\<close>

subsection \<open>The three codecs\<close>

text \<open>
  A file is a list of bytes, a decoded text a list of code points. A decoder returns
  \<open>None\<close> where Python's strict decoder raises \<open>UnicodeDecodeError\<close>.
\<close>

type_synonym byte = "8 word"

datatype encoding = UTF_8 | CP1251 | LATIN_1

definition is_cont :: "nat \<Rightarrow> bool" where
  "is_cont b = (128 \<le> b \<and> b \<le> 191)"

text \<open>
  Strict UTF-8 over the numeric values of the bytes: shortest form only, no surrogates,
  nothing above U+10FFFF.
\<close>

fun utf_8 :: "nat list \<Rightarrow> nat list option" where
  "utf_8 [] = Some []"
| "utf_8 (b0 # bs) =
     (if b0 < 128 then map_option ((#) b0) (utf_8 bs)
      else if 194 \<le> b0 \<and> b0 \<le> 223 then
        (case bs of
           b1 # r \<Rightarrow>
             if is_cont b1
             then map_option ((#) ((b0 - 192) * 64 + (b1 - 128))) (utf_8 r)
             else None
         | _ \<Rightarrow> None)
      else if 224 \<le> b0 \<and> b0 \<le> 239 then
        (case bs of
           b1 # b2 # r \<Rightarrow>
             if is_cont b1 \<and> is_cont b2
                \<and> (b0 = 224 \<longrightarrow> 160 \<le> b1) \<and> (b0 = 237 \<longrightarrow> b1 \<le> 159)
             then map_option
                    ((#) ((b0 - 224) * 4096 + (b1 - 128) * 64 + (b2 - 128))) (utf_8 r)
             else None
         | _ \<Rightarrow> None)
      else if 240 \<le> b0 \<and> b0 \<le> 244 then
        (case bs of
           b1 # b2 # b3 # r \<Rightarrow>
             if is_cont b1 \<and> is_cont b2 \<and> is_cont b3
                \<and> (b0 = 240 \<longrightarrow> 144 \<le> b1) \<and> (b0 = 244 \<longrightarrow> b1 \<le> 143)
             then map_option
                    ((#) ((b0 - 240) * 262144 + (b1 - 128) * 4096 + (b2 - 128) * 64
                          + (b3 - 128))) (utf_8 r)
             else None
         | _ \<Rightarrow> None)
      else None)"

text \<open>
  Windows-1251: ASCII below 128, the table for 128 to 191 (byte 152 is not assigned),
  the Cyrillic block from U+0410 for 192 to 255.
\<close>

definition cp1251_high :: "nat option list" where
  "cp1251_high =
     [Some 1026, Some 1027, Some 8218, Some 1107, Some 8222, Some 8230, Some 8224, Some 8225,
      Some 8364, Some 8240, Some 1033, Some 8249, Some 1034, Some 1036, Some 1035, Some 1039,
      Some 1106, Some 8216, Some 8217, Some 8220, Some 8221, Some 8226, Some 8211, Some 8212,
      None, Some 8482, Some 1113, Some 8250, Some 1114, Some 1116, Some 1115, Some 1119,
      Some 160, Some 1038, Some 1118, Some 1032, Some 164, Some 1168, Some 166, Some 167,
      Some 1025, Some 169, Some 1028, Some 171, Some 172, Some 173, Some 174, Some 1031,
      Some 176, Some 177, Some 1030, Some 1110, Some 1169, Some 181, Some 182, Some 183,
      Some 1105, Some 8470, Some 1108, Some 187, Some 1112, Some 1029, Some 1109, Some 1111]"

definition cp1251_char :: "nat \<Rightarrow> nat option" where
  "cp1251_char b =
     (if b < 128 then Some b
      else if b < 192 then cp1251_high ! (b - 128)
      else Some (b + 848))"

text \<open>All of the bytes decoded one by one, or nothing when one of them fails.\<close>

fun decode_each :: "(nat \<Rightarrow> nat option) \<Rightarrow> nat list \<Rightarrow> nat list option" where
  "decode_each f [] = Some []"
| "decode_each f (b # bs) =
     (case f b of
        None \<Rightarrow> None
      | Some c \<Rightarrow> map_option ((#) c) (decode_each f bs))"

text \<open>Latin-1: every byte is the code point of its value.\<close>

definition latin_1_char :: "nat \<Rightarrow> nat option" where
  "latin_1_char b = Some b"

definition decode :: "encoding \<Rightarrow> byte list \<Rightarrow> nat list option" where
  "decode enc bs =
     (case enc of
        UTF_8 \<Rightarrow> utf_8 (map unat bs)
      | CP1251 \<Rightarrow> decode_each cp1251_char (map unat bs)
      | LATIN_1 \<Rightarrow> decode_each latin_1_char (map unat bs))"

subsection \<open>The loop over the encodings\<close>

text \<open>
  \<open>pd.read_csv(input_path, encoding=encoding)\<close> on a file of the given bytes: it raises
  \<open>UnicodeDecodeError\<close> when the bytes do not decode; when they do, the parser of the
  library (a parameter here) gives the frame, or raises an error of another kind
  (\<open>None\<close>), an empty file being one such case.
\<close>

datatype 'df read_result = Frame 'df | UnicodeDecodeError | OtherError

definition read_csv :: "(nat list \<Rightarrow> 'df option) \<Rightarrow> byte list \<Rightarrow> encoding \<Rightarrow> 'df read_result" where
  "read_csv parse bs enc =
     (case decode enc bs of
        None \<Rightarrow> UnicodeDecodeError
      | Some cps \<Rightarrow> (case parse cps of None \<Rightarrow> OtherError | Some df \<Rightarrow> Frame df))"

text \<open>
  How the \<open>for ... else\<close> loop ends: by \<open>break\<close> with the frame read under an encoding,
  by an error that is not caught, or in its \<open>else\<close> branch after the last encoding.
\<close>

datatype 'df loop_exit = Break encoding 'df | Raised | Else

fun try_encodings ::
  "(nat list \<Rightarrow> 'df option) \<Rightarrow> byte list \<Rightarrow> encoding list \<Rightarrow> 'df loop_exit" where
  "try_encodings parse bs [] = Else"
| "try_encodings parse bs (enc # encs) =
     (case read_csv parse bs enc of
        Frame df \<Rightarrow> Break enc df
      | UnicodeDecodeError \<Rightarrow> try_encodings parse bs encs
      | OtherError \<Rightarrow> Raised)"

definition csv_encodings :: "encoding list" where
  "csv_encodings = [UTF_8, CP1251, LATIN_1]"

definition read_csv_source :: "(nat list \<Rightarrow> 'df option) \<Rightarrow> byte list \<Rightarrow> 'df loop_exit" where
  "read_csv_source parse bs = try_encodings parse bs csv_encodings"

section \<open>The dispatcher and the converters' calls (\<open>convert_file\<close>)\<close>

text \<open>
  The file system is the map from the paths that exist to their contents. The exceptions
  that matter to the handler are \<open>ConversionError\<close> and every other \<open>Exception\<close>.
\<close>

type_synonym files = "string \<rightharpoonup> byte list"

datatype exn = ConversionError string | OtherException

text \<open>
  The calls into the conversion libraries, with the arguments the converters compute:
  \<^item> \<open>PillowSave input prep format kwargs output\<close>: \<open>img.save\<close> after the preparation;
  \<^item> \<open>PydubExport input input_format kwargs output\<close>: \<open>AudioSegment.from_file\<close> and
    \<open>export\<close>;
  \<^item> \<open>FfmpegRun call\<close>: \<open>ffmpeg.run\<close>;
  \<^item> \<open>PandocConvert input output_format output extra_args\<close>: \<open>pypandoc.convert_file\<close>;
  \<^item> \<open>PandasToCsv df output\<close>, \<open>PandasToExcel df output\<close>: \<open>df.to_csv\<close>, \<open>df.to_excel\<close>.
  A call writes the output file and returns, returns without an output file, or raises,
  perhaps leaving a partial output file behind. It touches no other path.
\<close>

datatype 'df tool_call =
    PillowSave string image_prep string "(string \<times> string) list" string
  | PydubExport string string "(string \<times> string) list" string
  | FfmpegRun ffmpeg_call
  | PandocConvert string string string "string list"
  | PandasToCsv 'df string
  | PandasToExcel 'df string

datatype tool_outcome = Wrote "byte list" | WroteNothing | Failed "byte list option"

text \<open>
  The calls of the bot API in \<open>handle_conversion\<close>, by their place in the source. Each
  of them may raise.
\<close>

datatype call_site =
    CallbackAnswer | EditBadData | EditLost | EditStatus | GetFile | DownloadFile
  | EditConverting | EditUploading | AnswerDocument | EditDone
  | EditConversionError | EditUnexpected

text \<open>
  \<open>save_file_from_bytes\<close> writes the file, or raises and leaves nothing or a partial
  file.
\<close>

datatype save_outcome = Saved | SaveFailed "byte list option"

text \<open>
  What the handler does not decide: the outcomes of the API calls, the bytes behind a
  file id, the outcome of saving, what the libraries read from a file and what their
  calls do, and whether \<open>os.remove\<close> of a path raises.
\<close>

record 'df env =
  api_raises :: "call_site \<Rightarrow> bool"
  download :: "string \<Rightarrow> byte list"
  save_outcome :: save_outcome
  image_mode :: "byte list \<Rightarrow> string option"
  read_excel :: "byte list \<Rightarrow> 'df option"
  parse_csv :: "nat list \<Rightarrow> 'df option"
  read_csv_ignore :: "byte list \<Rightarrow> 'df option"
  run_tool :: "'df tool_call \<Rightarrow> tool_outcome"
  remove_raises :: "string \<Rightarrow> bool"

text \<open>
  A library call inside a converter: every converter wraps what it raises into a
  \<open>ConversionError\<close> (the string names the converter).
\<close>

definition call_tool ::
  "'df env \<Rightarrow> string \<Rightarrow> 'df tool_call \<Rightarrow> string \<Rightarrow> files \<Rightarrow> (exn + string) \<times> files" where
  "call_tool env who call output_path fs =
     (case run_tool env call of
        Wrote b \<Rightarrow> (Inr output_path, fs(output_path \<mapsto> b))
      | WroteNothing \<Rightarrow> (Inr output_path, fs)
      | Failed None \<Rightarrow> (Inl (ConversionError who), fs)
      | Failed (Some b) \<Rightarrow> (Inl (ConversionError who), fs(output_path \<mapsto> b)))"

definition convert_image ::
  "'df env \<Rightarrow> files \<Rightarrow> string \<Rightarrow> string \<Rightarrow> string \<Rightarrow> (exn + string) \<times> files" where
  "convert_image env fs input_path output_path target_format =
     (case fs input_path of
        None \<Rightarrow> (Inl (ConversionError ''image''), fs)
      | Some content \<Rightarrow>
          (case image_mode env content of
             None \<Rightarrow> (Inl (ConversionError ''image''), fs)
           | Some mode \<Rightarrow>
               call_tool env ''image''
                 (PillowSave input_path (prepare_image target_format mode)
                    (pil_format target_format) (save_kwargs (pil_format target_format))
                    output_path)
                 output_path fs))"

definition export_kwargs :: "string \<Rightarrow> (string \<times> string) list" where
  "export_kwargs target_format =
     (if target_format = ''mp3'' then [(''format'', ''mp3''), (''bitrate'', ''320k'')]
      else if target_format = ''ogg'' then [(''format'', ''ogg''), (''codec'', ''libvorbis'')]
      else if target_format = ''wav'' then [(''format'', ''wav'')]
      else if target_format = ''flac'' then [(''format'', ''flac'')]
      else [(''format'', target_format)])"

text \<open>\<open>Path(input_path).suffix.lower().lstrip('.')\<close>\<close>

definition input_ext_of :: "string \<Rightarrow> string" where
  "input_ext_of input_path = lstrip_dot (lower (path_suffix input_path))"

definition convert_audio ::
  "'df env \<Rightarrow> files \<Rightarrow> string \<Rightarrow> string \<Rightarrow> string \<Rightarrow> (exn + string) \<times> files" where
  "convert_audio env fs input_path output_path target_format =
     call_tool env ''audio''
       (PydubExport input_path (input_ext_of input_path) (export_kwargs target_format) output_path)
       output_path fs"

definition convert_video ::
  "'df env \<Rightarrow> files \<Rightarrow> string \<Rightarrow> string \<Rightarrow> string \<Rightarrow> (exn + string) \<times> files" where
  "convert_video env fs input_path output_path target_format =
     call_tool env ''video'' (FfmpegRun (ffmpeg_command input_path output_path target_format))
       output_path fs"

definition pandoc_format_map :: "(string \<times> string) list" where
  "pandoc_format_map =
     [(''docx'', ''docx''), (''doc'', ''doc''), (''pdf'', ''pdf''),
      (''txt'', ''plain''), (''rtf'', ''rtf''), (''odt'', ''odt'')]"

definition pandoc_format :: "string \<Rightarrow> string" where
  "pandoc_format fmt = (case map_of pandoc_format_map fmt of Some f \<Rightarrow> f | None \<Rightarrow> fmt)"

definition convert_document ::
  "'df env \<Rightarrow> files \<Rightarrow> string \<Rightarrow> string \<Rightarrow> string \<Rightarrow> (exn + string) \<times> files" where
  "convert_document env fs input_path output_path target_format =
     call_tool env ''document''
       (PandocConvert input_path (pandoc_format target_format) output_path
          (if target_format = ''pdf'' then [''--pdf-engine=xelatex''] else []))
       output_path fs"

text \<open>
  The frame \<open>convert_spreadsheet\<close> reads from its input, or \<open>None\<close> when reading raises:
  by \<open>read_excel\<close> for \<open>xlsx\<close> and \<open>xls\<close>, by the loop over the encodings for \<open>csv\<close> (its
  \<open>else\<close> branch reads once more, ignoring errors), and no other extension is read.
\<close>

definition read_frame :: "'df env \<Rightarrow> string \<Rightarrow> byte list \<Rightarrow> 'df option" where
  "read_frame env input_ext content =
     (if input_ext \<in> {''xlsx'', ''xls''} then read_excel env content
      else if input_ext = ''csv'' then
        (case read_csv_source (parse_csv env) content of
           Break enc df \<Rightarrow> Some df
         | Raised \<Rightarrow> None
         | Else \<Rightarrow> read_csv_ignore env content)
      else None)"

definition convert_spreadsheet ::
  "'df env \<Rightarrow> files \<Rightarrow> string \<Rightarrow> string \<Rightarrow> string \<Rightarrow> (exn + string) \<times> files" where
  "convert_spreadsheet env fs input_path output_path target_format =
     (case fs input_path of
        None \<Rightarrow> (Inl (ConversionError ''spreadsheet''), fs)
      | Some content \<Rightarrow>
          (case read_frame env (input_ext_of input_path) content of
             None \<Rightarrow> (Inl (ConversionError ''spreadsheet''), fs)
           | Some df \<Rightarrow>
               if target_format = ''csv'' then
                 call_tool env ''spreadsheet'' (PandasToCsv df output_path) output_path fs
               else if target_format = ''xlsx'' then
                 call_tool env ''spreadsheet'' (PandasToExcel df output_path) output_path fs
               else (Inl (ConversionError ''spreadsheet''), fs)))"

definition convert_file ::
  "'df env \<Rightarrow> files \<Rightarrow> string \<Rightarrow> string \<Rightarrow> string \<Rightarrow> string \<Rightarrow> (exn + string) \<times> files" where
  "convert_file env fs input_path output_path source_format target_format =
     (let file_type = get_file_type source_format
      in if file_type = Some ''image'' then
           convert_image env fs input_path output_path target_format
         else if file_type = Some ''audio'' then
           convert_audio env fs input_path output_path target_format
         else if file_type = Some ''video'' then
           convert_video env fs input_path output_path target_format
         else if file_type \<in> {Some ''document'', Some ''pdf'', Some ''text''} then
           convert_document env fs input_path output_path target_format
         else if file_type = Some ''spreadsheet'' then
           convert_spreadsheet env fs input_path output_path target_format
         else (Inl (ConversionError ''unsupported type''), fs))"

section \<open>The choice of a format (handlers/callbacks.py)\<close>

subsection \<open>Temporary paths\<close>

text \<open>The decimal text of an integer, as an f-string prints it.\<close>

definition digit_char :: "nat \<Rightarrow> char" where
  "digit_char d = char_of (48 + d)"

fun str_nat :: "nat \<Rightarrow> string" where
  "str_nat n = (if n < 10 then [digit_char n] else str_nat (n div 10) @ [digit_char (n mod 10)])"

declare str_nat.simps [simp del]

definition str_int :: "int \<Rightarrow> string" where
  "str_int i = (if i < 0 then CHR ''-'' # str_nat (nat (- i)) else str_nat (nat i))"

text \<open>\<open>os.path.join(a, b)\<close> (POSIX) for two components.\<close>

definition path_join :: "string \<Rightarrow> string \<Rightarrow> string" where
  "path_join a b =
     (if b \<noteq> [] \<and> hd b = CHR ''/'' then b
      else if a = [] \<or> last a = CHR ''/'' then a @ b
      else a @ ''/'' @ b)"

text \<open>
  The two paths of a job, as \<open>handle_conversion\<close> builds them from the directory for
  temporary files, the user id, the file id and the two formats.
\<close>

definition input_path_of :: "string \<Rightarrow> int \<Rightarrow> string \<Rightarrow> string \<Rightarrow> string" where
  "input_path_of temp_dir user_id file_id source_extension =
     path_join temp_dir
       (''input_'' @ str_int user_id @ ''_'' @ take 8 file_id @ ''.'' @ source_extension)"

definition output_path_of :: "string \<Rightarrow> int \<Rightarrow> string \<Rightarrow> string \<Rightarrow> string" where
  "output_path_of temp_dir user_id file_id target_format =
     path_join temp_dir
       (''output_'' @ str_int user_id @ ''_'' @ take 8 file_id @ ''.'' @ target_format)"

subsection \<open>\<open>cleanup_files\<close>\<close>

text \<open>
  For each path in turn: when it exists it is removed; a removal that raises is logged
  and the file stays.
\<close>

fun cleanup_files :: "'df env \<Rightarrow> string list \<Rightarrow> files \<Rightarrow> files" where
  "cleanup_files env [] fs = fs"
| "cleanup_files env (path # paths) fs =
     cleanup_files env paths
       (if fs path \<noteq> None \<and> \<not> remove_raises env path then fs(path := None) else fs)"

subsection \<open>\<open>handle_conversion\<close>\<close>

text \<open>
  What can be seen of a run of the handler: the messages it showed (by the place of the
  call), the call of \<open>convert_file\<close> with its four arguments, and the document it sent
  (file name and content).
\<close>

datatype event =
    Shown call_site
  | Dispatched string string string string
  | Delivered string "byte list"

definition save_file_from_bytes ::
  "'df env \<Rightarrow> byte list \<Rightarrow> string \<Rightarrow> files \<Rightarrow> (exn + string) \<times> files" where
  "save_file_from_bytes env content path fs =
     (case save_outcome env of
        Saved \<Rightarrow> (Inr path, fs(path \<mapsto> content))
      | SaveFailed None \<Rightarrow> (Inl OtherException, fs)
      | SaveFailed (Some partial) \<Rightarrow> (Inl OtherException, fs(path \<mapsto> partial)))"

text \<open>
  The body of the \<open>try\<close>: the exception that leaves it, if any, the files and the
  events after it.
\<close>

definition try_body ::
  "'df env \<Rightarrow> string \<Rightarrow> string \<Rightarrow> string \<Rightarrow> string \<Rightarrow> string \<Rightarrow> string \<Rightarrow> files
     \<Rightarrow> exn option \<times> files \<times> event list" where
  "try_body env file_id source_extension target_format input_path output_path
     output_filename fs =
     (if api_raises env GetFile then (Some OtherException, fs, [])
      else if api_raises env DownloadFile then (Some OtherException, fs, [])
      else
        (case save_file_from_bytes env (download env file_id) input_path fs of
           (Inl e, fs1) \<Rightarrow> (Some e, fs1, [])
         | (Inr _, fs1) \<Rightarrow>
             if api_raises env EditConverting then (Some OtherException, fs1, [])
             else
               (let dispatched = [Shown EditConverting,
                                  Dispatched input_path output_path source_extension
                                    target_format]
                in case convert_file env fs1 input_path output_path source_extension
                          target_format of
                     (Inl e, fs2) \<Rightarrow> (Some e, fs2, dispatched)
                   | (Inr _, fs2) \<Rightarrow>
                       (case fs2 output_path of
                          None \<Rightarrow> (Some (ConversionError ''no output file''), fs2, dispatched)
                        | Some content \<Rightarrow>
                            if api_raises env EditUploading then
                              (Some OtherException, fs2, dispatched)
                            else if api_raises env AnswerDocument then
                              (Some OtherException, fs2, dispatched @ [Shown EditUploading])
                            else if api_raises env EditDone then
                              (Some OtherException, fs2,
                               dispatched @ [Shown EditUploading,
                                             Delivered output_filename content])
                            else
                              (None, fs2,
                               dispatched @ [Shown EditUploading,
                                             Delivered output_filename content,
                                             Shown EditDone])))))"

text \<open>
  The two \<open>except\<close> clauses: each shows its message; when that call raises, its
  exception takes the place of the one handled.
\<close>

definition except_clauses :: "'df env \<Rightarrow> exn option \<Rightarrow> exn option \<times> event list" where
  "except_clauses env raised =
     (case raised of
        None \<Rightarrow> (None, [])
      | Some (ConversionError e) \<Rightarrow>
          if api_raises env EditConversionError then (Some OtherException, [])
          else (None, [Shown EditConversionError])
      | Some OtherException \<Rightarrow>
          if api_raises env EditUnexpected then (Some OtherException, [])
          else (None, [Shown EditUnexpected]))"

record run =
  raised :: "exn option"
  session_after :: session
  files_after :: files
  events :: "event list"

text \<open>\<open>data.get(key, default)\<close>\<close>

definition get_or :: "(string \<rightharpoonup> string) \<Rightarrow> string \<Rightarrow> string \<Rightarrow> string" where
  "get_or d key dflt = (case d key of None \<Rightarrow> dflt | Some v \<Rightarrow> v)"

text \<open>
  The handler of the callbacks whose data starts with \<open>cvt:\<close>, for the user
  \<open>user_id\<close>, on the user's session and the file system. An exception outside the
  \<open>try\<close> leaves the handler at once; inside, the \<open>except\<close> clauses and the \<open>finally\<close>
  clause (clear the session, clean up both paths) run.
\<close>

definition handle_conversion ::
  "'df env \<Rightarrow> string \<Rightarrow> int \<Rightarrow> string \<Rightarrow> session \<Rightarrow> files \<Rightarrow> run" where
  "handle_conversion env temp_dir user_id data state fs =
     (if api_raises env CallbackAnswer then
        \<lparr>raised = Some OtherException, session_after = state, files_after = fs, events = []\<rparr>
      else
        (let parts = split_on CHR '':'' data
         in if length parts \<noteq> 2 then
              (if api_raises env EditBadData then
                 \<lparr>raised = Some OtherException, session_after = state, files_after = fs,
                  events = []\<rparr>
               else
                 \<lparr>raised = None, session_after = clear state, files_after = fs,
                  events = [Shown EditBadData]\<rparr>)
            else
              (let target_format = parts ! 1;
                   file_id = get_or (fsm_data state) ''file_id'' [];
                   file_name = get_or (fsm_data state) ''file_name'' ''file'';
                   source_extension = get_or (fsm_data state) ''file_extension'' []
               in if source_extension = [] \<or> file_id = [] then
                    (if api_raises env EditLost then
                       \<lparr>raised = Some OtherException, session_after = state, files_after = fs,
                        events = []\<rparr>
                     else
                       \<lparr>raised = None, session_after = clear state, files_after = fs,
                        events = [Shown EditLost]\<rparr>)
                  else if api_raises env EditStatus then
                    \<lparr>raised = Some OtherException, session_after = state, files_after = fs,
                     events = []\<rparr>
                  else
                    (let input_path = input_path_of temp_dir user_id file_id source_extension;
                         output_filename = path_stem file_name @ ''.'' @ target_format;
                         output_path = output_path_of temp_dir user_id file_id target_format;
                         (exn1, fs1, evs1) =
                           try_body env file_id source_extension target_format input_path
                             output_path output_filename fs;
                         (exn2, evs2) = except_clauses env exn1
                     in \<lparr>raised = exn2,
                         session_after = clear state,
                         files_after = cleanup_files env [input_path, output_path] fs1,
                         events = Shown EditStatus # evs1 @ evs2\<rparr>))))"

text \<open>
  The targets that are legal for a source extension: those of the keyboard made for it
  (none when the extension is not supported).
\<close>

definition legal_targets :: "string \<Rightarrow> string list" where
  "legal_targets source_extension =
     (case create_format_keyboard source_extension [] of
        None \<Rightarrow> []
      | Some kb \<Rightarrow> keyboard_targets kb)"

text \<open>
  An environment in which nothing fails: every API call succeeds, the file behind every
  id has the same four bytes, images are RGB, and every library call writes one byte.
\<close>

definition quiet_env :: "nat list env" where
  "quiet_env =
     \<lparr>api_raises = (\<lambda>_. False),
      download = (\<lambda>_. [1, 2, 3, 4]),
      save_outcome = Saved,
      image_mode = (\<lambda>_. Some ''RGB''),
      read_excel = (\<lambda>_. Some []),
      parse_csv = Some,
      read_csv_ignore = (\<lambda>_. Some []),
      run_tool = (\<lambda>_. Wrote [7]),
      remove_raises = (\<lambda>_. False)\<rparr>"

text \<open>The pair of paths of the job of a user for a file and a target format.\<close>

definition temp_paths :: "string \<Rightarrow> int \<Rightarrow> string \<Rightarrow> string \<Rightarrow> string \<Rightarrow> string \<times> string" where
  "temp_paths temp_dir user_id file_id source_extension target_format =
     (input_path_of temp_dir user_id file_id source_extension,
      output_path_of temp_dir user_id file_id target_format)"

text \<open>
  The session \<open>process_file\<close> leaves for the file \<open>a.png\<close> with the file id
  \<open>FILE1\<close>: a pending request whose source extension is \<open>png\<close>.
\<close>

definition pending_png :: session where
  "pending_png =
     \<lparr>fsm_state = Some waiting_for_format,
      fsm_data = [''file_id'' \<mapsto> ''FILE1'', ''file_name'' \<mapsto> ''a.png'',
                  ''file_extension'' \<mapsto> ''png'']\<rparr>"

section \<open>Properties of the registry\<close>

text \<open>The format codes are in lower case already.\<close>

lemma lower_codes:
  "lower ''jpg'' = ''jpg''" "lower ''jpeg'' = ''jpeg''" "lower ''png'' = ''png''"
  "lower ''bmp'' = ''bmp''" "lower ''pdf'' = ''pdf''" "lower ''webp'' = ''webp''"
  by (simp_all add: lower_def lower_char_def)

lemma options_for_jpeg:
  "options_for ''jpeg'' = Some (''image'', the (map_of CONVERSION_OPTIONS ''image''))"
  by (simp add: options_for_def get_file_type_def lower_codes FILE_TYPE_MAP_def
      CONVERSION_OPTIONS_def)

lemma keyboard_formats_exclude:
  "set (keyboard_formats opts ext) \<inter> aliases ext = {}"
  by (auto simp: keyboard_formats_def exclude_formats_def aliases_def)

text \<open>
  The list behind the keyboard leaves out the source extension and its aliases, whatever
  the extension.
\<close>

lemma keyboard_targets_format_buttons:
  "keyboard_targets (map (format_button opts) fs @ [cancel_button]) = fs"
  by (induction fs) (simp_all add: keyboard_targets_def format_button_def cancel_button_def)

lemma create_format_keyboard_excludes_aliases:
  assumes "create_format_keyboard file_extension file_id = Some kb"
  shows "set (keyboard_targets kb) \<inter> aliases (lstrip_dot (lower file_extension)) = {}"
proof -
  from assms obtain opts where
    kb: "kb = map (format_button opts)
                (keyboard_formats opts (lstrip_dot (lower file_extension))) @ [cancel_button]"
    by (auto simp: create_format_keyboard_def Let_def split: option.splits)
  show ?thesis
    unfolding kb keyboard_targets_format_buttons by (rule keyboard_formats_exclude)
qed

text \<open>
  C1. The legal-target list never contains the source extension nor one of its aliases,
  on the keyboard and in the conversion info alike. The keyboard keeps to it (lemma
  above); the conversion info does not: for the source \<open>jpeg\<close> its list of available
  formats starts with the alias \<open>jpg\<close>, while the keyboard built for the same file
  leaves \<open>jpg\<close> out.
\<close>

theorem get_conversion_info_jpeg_lists_alias:
  "map_option available_formats (get_conversion_info ''jpeg'')
     = Some [''jpg'', ''png'', ''webp'', ''bmp'', ''pdf'']
   \<and> ''jpg'' \<in> aliases ''jpeg''
   \<and> map_option keyboard_targets (create_format_keyboard ''jpeg'' file_id)
     = Some [''png'', ''webp'', ''bmp'', ''pdf'']"
  by (simp add: get_conversion_info_def create_format_keyboard_def options_for_jpeg
      lower_codes lstrip_dot_def Let_def CONVERSION_OPTIONS_def aliases_def keyboard_formats_def
      exclude_formats_def keyboard_targets_def format_button_def cancel_button_def)

section \<open>Properties of the image and video converters\<close>






section \<open>Properties of \<open>process_file\<close>\<close>

lemma lower_supported:
  "ext \<in> set get_supported_extensions \<Longrightarrow> lower ext = ext"
  by (auto simp: get_supported_extensions_def FILE_TYPE_MAP_def lower_def lower_char_def)

lemma lstrip_dot_supported:
  "ext \<in> set get_supported_extensions \<Longrightarrow> lstrip_dot ext = ext"
  by (auto simp: get_supported_extensions_def FILE_TYPE_MAP_def lstrip_dot_def)

lemma options_for_supported:
  "ext \<in> set get_supported_extensions \<Longrightarrow>
     \<exists>file_type opts. options_for ext = Some (file_type, opts) \<and> 2 \<le> length (formats opts)
       \<and> distinct (formats opts)"
  unfolding options_for_def get_file_type_def
  by (auto simp: get_supported_extensions_def FILE_TYPE_MAP_def lower_def lower_char_def
      CONVERSION_OPTIONS_def)

lemma filter_neq_nonempty:
  assumes "2 \<le> length xs" "distinct xs"
  shows "filter (\<lambda>x. x \<noteq> a) xs \<noteq> []"
proof -
  obtain x y zs where xs: "xs = x # y # zs"
    using assms(1) by (cases xs; cases "tl xs") auto
  with assms(2) have "x \<noteq> y" by simp
  then have "x \<noteq> a \<or> y \<noteq> a" by auto
  then show ?thesis by (auto simp: xs)
qed

text \<open>Every supported extension has conversion info with a target and a keyboard.\<close>

lemma supported_has_targets:
  assumes "ext \<in> set get_supported_extensions"
  shows "\<exists>info kb. get_conversion_info ext = Some info \<and> available_formats info \<noteq> []
           \<and> create_format_keyboard ext file_id = Some kb"
proof -
  from options_for_supported [OF assms] obtain file_type opts where
    o: "options_for ext = Some (file_type, opts)" and
    l: "2 \<le> length (formats opts)" and d: "distinct (formats opts)"
    by blast
  have e: "lstrip_dot (lower ext) = ext"
    by (simp add: lower_supported [OF assms] lstrip_dot_supported [OF assms])
  show ?thesis
    using filter_neq_nonempty [OF l d, of ext]
    by (simp add: get_conversion_info_def create_format_keyboard_def e o Let_def)
qed

text \<open>
  C5. A file over the size limit is answered with the size rejection, and the session is
  what it was: no pending request is written and an earlier one is not touched. The
  size is looked at first, so the answer is the same whatever the file's name and
  extension.
\<close>

theorem oversized_file_rejected:
  assumes "file_size > MAX_FILE_SIZE max_file_size_mb"
  shows "process_file max_file_size_mb file_id file_name file_size state
           = (FileTooBig file_size (MAX_FILE_SIZE max_file_size_mb div (1024 * 1024)), state)"
  using assms by (simp add: process_file_def)

theorem oversized_file_rejected_witness:
  "(52428801 :: int) > MAX_FILE_SIZE 50
   \<and> process_file 50 ''FILE1'' ''setup.exe'' 52428801
        \<lparr>fsm_state = Some waiting_for_format, fsm_data = [''file_id'' \<mapsto> ''FILE0'']\<rparr>
      = (FileTooBig 52428801 50,
         \<lparr>fsm_state = Some waiting_for_format, fsm_data = [''file_id'' \<mapsto> ''FILE0'']\<rparr>)
   \<and> extension_of ''setup.exe'' \<notin> set get_supported_extensions"
proof -
  have h: "(52428801 :: int) > MAX_FILE_SIZE 50"
    by (simp add: MAX_FILE_SIZE_def)
  have e: "extension_of ''setup.exe'' = ''exe''"
    by (simp add: extension_of_def path_suffix_def path_name_def has_suffix_def
        after_last_dot_def lower_def lower_char_def lstrip_dot_def)
  have m: "MAX_FILE_SIZE 50 div 1048576 = 50"
    by (simp add: MAX_FILE_SIZE_def)
  show ?thesis
    using oversized_file_rejected [OF h, of "''FILE1''" "''setup.exe''"
        "\<lparr>fsm_state = Some waiting_for_format, fsm_data = [''file_id'' \<mapsto> ''FILE0'']\<rparr>"]
    by (simp add: h e m get_supported_extensions_def FILE_TYPE_MAP_def)
qed

text \<open>
  C10. The comparison with the limit is strict. The answer is the size rejection
  exactly when the size is greater than the limit; a file of exactly the limit goes on
  to classification: with an unsupported extension it is answered as unsupported, with
  a supported one the keyboard is offered and the request is stored.
\<close>

theorem size_limit_strict:
  "(is_too_big (fst (process_file max_file_size_mb file_id file_name file_size state))
      \<longleftrightarrow> file_size > MAX_FILE_SIZE max_file_size_mb)
   \<and> (extension_of file_name \<notin> set get_supported_extensions \<longrightarrow>
        process_file max_file_size_mb file_id file_name (MAX_FILE_SIZE max_file_size_mb) state
          = (UnsupportedFormat file_name, state))
   \<and> (extension_of file_name \<in> set get_supported_extensions \<longrightarrow>
        (\<exists>e kb. process_file max_file_size_mb file_id file_name
                   (MAX_FILE_SIZE max_file_size_mb) state
                 = (ChooseFormat e file_name (MAX_FILE_SIZE max_file_size_mb) kb,
                    set_state waiting_for_format
                      (update_data [(''file_id'', file_id), (''file_name'', file_name),
                                    (''file_extension'', extension_of file_name)] state))))"
proof (intro conjI impI)
  show "is_too_big (fst (process_file max_file_size_mb file_id file_name file_size state))
          \<longleftrightarrow> file_size > MAX_FILE_SIZE max_file_size_mb"
    by (simp add: process_file_def Let_def split: option.splits)
next
  assume "extension_of file_name \<notin> set get_supported_extensions"
  then show "process_file max_file_size_mb file_id file_name
               (MAX_FILE_SIZE max_file_size_mb) state = (UnsupportedFormat file_name, state)"
    by (simp add: process_file_def Let_def)
next
  assume s: "extension_of file_name \<in> set get_supported_extensions"
  then have n: "extension_of file_name \<noteq> []"
    by (auto simp: get_supported_extensions_def FILE_TYPE_MAP_def)
  from supported_has_targets [OF s, of file_id] obtain info kb where
    "get_conversion_info (extension_of file_name) = Some info"
    "available_formats info \<noteq> []"
    "create_format_keyboard (extension_of file_name) file_id = Some kb"
    by blast
  then show "\<exists>e kb. process_file max_file_size_mb file_id file_name
                 (MAX_FILE_SIZE max_file_size_mb) state
               = (ChooseFormat e file_name (MAX_FILE_SIZE max_file_size_mb) kb,
                  set_state waiting_for_format
                    (update_data [(''file_id'', file_id), (''file_name'', file_name),
                                  (''file_extension'', extension_of file_name)] state))"
    by (simp add: process_file_def Let_def s n)
qed

lemma extension_of_examples:
  "extension_of ''a.png'' = ''png''" "extension_of ''a.exe'' = ''exe''"
  by (simp_all add: extension_of_def path_suffix_def path_name_def has_suffix_def
      after_last_dot_def lower_def lower_char_def lstrip_dot_def)

theorem size_limit_strict_witness:
  "extension_of ''a.png'' \<in> set get_supported_extensions
   \<and> \<not> is_too_big (fst (process_file 50 ''FILE1'' ''a.png'' (MAX_FILE_SIZE 50)
                          \<lparr>fsm_state = None, fsm_data = Map.empty\<rparr>))
   \<and> (\<exists>e kb. process_file 50 ''FILE1'' ''a.png'' (MAX_FILE_SIZE 50)
                \<lparr>fsm_state = None, fsm_data = Map.empty\<rparr>
              = (ChooseFormat e ''a.png'' (MAX_FILE_SIZE 50) kb,
                 set_state waiting_for_format
                   (update_data [(''file_id'', ''FILE1''), (''file_name'', ''a.png''),
                                 (''file_extension'', ''png'')]
                      \<lparr>fsm_state = None, fsm_data = Map.empty\<rparr>)))
   \<and> extension_of ''a.exe'' \<notin> set get_supported_extensions
   \<and> process_file 50 ''FILE1'' ''a.exe'' (MAX_FILE_SIZE 50)
        \<lparr>fsm_state = None, fsm_data = Map.empty\<rparr>
      = (UnsupportedFormat ''a.exe'', \<lparr>fsm_state = None, fsm_data = Map.empty\<rparr>)"
proof -
  have p: "extension_of ''a.png'' \<in> set get_supported_extensions"
    by (simp add: extension_of_examples get_supported_extensions_def FILE_TYPE_MAP_def)
  have e: "extension_of ''a.exe'' \<notin> set get_supported_extensions"
    by (simp add: extension_of_examples get_supported_extensions_def FILE_TYPE_MAP_def)
  show ?thesis
    using p e
      size_limit_strict [of 50 "''FILE1''" "''a.png''" "MAX_FILE_SIZE 50"
        "\<lparr>fsm_state = None, fsm_data = Map.empty\<rparr>"]
      size_limit_strict [of 50 "''FILE1''" "''a.exe''" "MAX_FILE_SIZE 50"
        "\<lparr>fsm_state = None, fsm_data = Map.empty\<rparr>"]
    by (simp add: extension_of_examples)
qed

section \<open>Properties of the CSV reading loop\<close>














section \<open>Properties of the temporary paths\<close>

lemma of_char_digit_char: "d < 10 \<Longrightarrow> (of_char (digit_char d) :: nat) = 48 + d"
  unfolding digit_char_def by (simp only: of_char_of) simp

lemma digit_char_inj:
  assumes "d < 10" "d' < 10" "digit_char d = digit_char d'"
  shows "d = d'"
proof -
  have "(of_char (digit_char d) :: nat) = of_char (digit_char d')"
    by (simp only: assms(3))
  then have "48 + d = 48 + d'"
    by (simp only: of_char_digit_char [OF assms(1)] of_char_digit_char [OF assms(2)])
  then show ?thesis by simp
qed

lemma digit_char_range:
  assumes "d < 10"
  shows "digit_char d \<noteq> CHR ''_''" and "digit_char d \<noteq> CHR ''-''"
proof -
  have v: "(of_char (digit_char d) :: nat) = 48 + d"
    by (rule of_char_digit_char [OF assms])
  have u: "(of_char CHR ''_'' :: nat) = 95" and m: "(of_char CHR ''-'' :: nat) = 45"
    by simp_all
  show "digit_char d \<noteq> CHR ''_''"
  proof
    assume "digit_char d = CHR ''_''"
    then have "(of_char (digit_char d) :: nat) = of_char CHR ''_''" by (simp only:)
    then have "48 + d = 95" by (simp only: v u)
    with assms show False by simp
  qed
  show "digit_char d \<noteq> CHR ''-''"
  proof
    assume "digit_char d = CHR ''-''"
    then have "(of_char (digit_char d) :: nat) = of_char CHR ''-''" by (simp only:)
    then have "48 + d = 45" by (simp only: v m)
    then show False by simp
  qed
qed

lemma str_nat_nonempty: "str_nat n \<noteq> []"
  by (subst str_nat.simps) simp

lemma str_nat_chars: "c \<in> set (str_nat n) \<Longrightarrow> c \<noteq> CHR ''_'' \<and> c \<noteq> CHR ''-''"
proof (induction n rule: str_nat.induct)
  case (1 n)
  show ?case
  proof (cases "n < 10")
    case True
    with "1.prems" have "c = digit_char n"
      by (subst (asm) str_nat.simps) simp
    with True show ?thesis
      using digit_char_range [of n] by simp
  next
    case False
    with "1.prems" have "c \<in> set (str_nat (n div 10)) \<or> c = digit_char (n mod 10)"
      by (subst (asm) str_nat.simps) auto
    then show ?thesis
    proof
      assume "c \<in> set (str_nat (n div 10))"
      with "1.IH" False show ?thesis by simp
    next
      assume "c = digit_char (n mod 10)"
      then show ?thesis
        using digit_char_range [of "n mod 10"] by simp
    qed
  qed
qed

lemma str_nat_inj: "str_nat n = str_nat m \<Longrightarrow> n = m"
proof (induction n arbitrary: m rule: str_nat.induct)
  case (1 n)
  show ?case
  proof (cases "n < 10")
    case n: True
    show ?thesis
    proof (cases "m < 10")
      case True
      with n "1.prems" have "digit_char n = digit_char m"
        by (subst (asm) str_nat.simps, subst (asm) (2) str_nat.simps) simp
      with n True show ?thesis by (intro digit_char_inj)
    next
      case False
      with n "1.prems" have "[digit_char n] = str_nat (m div 10) @ [digit_char (m mod 10)]"
        by (subst (asm) str_nat.simps, subst (asm) (2) str_nat.simps) simp
      then show ?thesis using str_nat_nonempty [of "m div 10"] by simp
    qed
  next
    case n: False
    show ?thesis
    proof (cases "m < 10")
      case True
      with n "1.prems" have "str_nat (n div 10) @ [digit_char (n mod 10)] = [digit_char m]"
        by (subst (asm) str_nat.simps, subst (asm) (2) str_nat.simps) simp
      then show ?thesis using str_nat_nonempty [of "n div 10"] by simp
    next
      case False
      with n "1.prems" have
        "str_nat (n div 10) @ [digit_char (n mod 10)]
           = str_nat (m div 10) @ [digit_char (m mod 10)]"
        by (subst (asm) str_nat.simps, subst (asm) (2) str_nat.simps) simp
      then have a: "str_nat (n div 10) = str_nat (m div 10)"
        and b: "digit_char (n mod 10) = digit_char (m mod 10)"
        by simp_all
      from "1.IH" [OF n a] have "n div 10 = m div 10" .
      moreover from b have "n mod 10 = m mod 10"
        by (intro digit_char_inj) simp_all
      ultimately show ?thesis
        by (metis div_mult_mod_eq)
    qed
  qed
qed

lemma str_int_no_underscore: "CHR ''_'' \<notin> set (str_int i)"
  using str_nat_chars by (auto simp: str_int_def)

lemma str_int_inj: "str_int i = str_int j \<Longrightarrow> i = j"
proof -
  assume e: "str_int i = str_int j"
  have h: "hd (str_nat n) \<noteq> CHR ''-''" for n
    using str_nat_chars [of "hd (str_nat n)" n] str_nat_nonempty [of n] by auto
  show ?thesis
  proof (cases "i < 0"; cases "j < 0")
    assume "i < 0" "j < 0"
    with e have "str_nat (nat (- i)) = str_nat (nat (- j))" by (simp add: str_int_def)
    then have "nat (- i) = nat (- j)" by (rule str_nat_inj)
    with \<open>i < 0\<close> \<open>j < 0\<close> show ?thesis by simp
  next
    assume "i < 0" "\<not> j < 0"
    with e have "CHR ''-'' # str_nat (nat (- i)) = str_nat (nat j)" by (simp add: str_int_def)
    then have "hd (str_nat (nat j)) = CHR ''-''" by (metis list.sel(1))
    with h show ?thesis by simp
  next
    assume "\<not> i < 0" "j < 0"
    with e have "str_nat (nat i) = CHR ''-'' # str_nat (nat (- j))" by (simp add: str_int_def)
    then have "hd (str_nat (nat i)) = CHR ''-''" by (metis list.sel(1))
    with h show ?thesis by simp
  next
    assume "\<not> i < 0" "\<not> j < 0"
    with e have "str_nat (nat i) = str_nat (nat j)" by (simp add: str_int_def)
    then have "nat i = nat j" by (rule str_nat_inj)
    with \<open>\<not> i < 0\<close> \<open>\<not> j < 0\<close> show ?thesis by simp
  qed
qed

text \<open>A name that does not start with a slash is joined after the same prefix.\<close>

lemma path_join_cancel:
  assumes "hd n \<noteq> CHR ''/''" "hd n' \<noteq> CHR ''/''"
  shows "path_join d n = path_join d n' \<longleftrightarrow> n = n'"
  using assms by (auto simp: path_join_def)

text \<open>A name \<open>prefix + user + _ + id8 + . + ext\<close> gives back its three parts.\<close>

lemma split_first:
  "x \<notin> set xs \<Longrightarrow> x \<notin> set xs' \<Longrightarrow>
     xs @ x # ys = xs' @ x # ys' \<longleftrightarrow> xs = xs' \<and> ys = ys'"
proof (induction xs arbitrary: xs')
  case Nil
  then show ?case by (cases xs') auto
next
  case (Cons a as)
  then show ?case by (cases xs') auto
qed

lemma split_last_dot:
  assumes "CHR ''.'' \<notin> set e" "CHR ''.'' \<notin> set e'"
  shows "f @ CHR ''.'' # e = f' @ CHR ''.'' # e' \<longleftrightarrow> f = f' \<and> e = e'"
proof
  assume "f @ CHR ''.'' # e = f' @ CHR ''.'' # e'"
  then have "rev (f @ CHR ''.'' # e) = rev (f' @ CHR ''.'' # e')" by simp
  then have "rev e @ CHR ''.'' # rev f = rev e' @ CHR ''.'' # rev f'" by simp
  with assms have "rev e = rev e' \<and> rev f = rev f'"
    using split_first [of "CHR ''.''" "rev e" "rev e'" "rev f" "rev f'"] by simp
  then show "f = f' \<and> e = e'" by simp
qed simp

lemma temp_name_eq:
  "str_int u @ CHR ''_'' # r = str_int u' @ CHR ''_'' # r' \<longleftrightarrow> u = u' \<and> r = r'"
  using str_int_inj [of u u']
    split_first [of "CHR ''_''" "str_int u" "str_int u'" r r']
  by (auto simp: str_int_no_underscore)

lemma input_path_eq:
  "input_path_of d u f e = input_path_of d u' f' e'
     \<longleftrightarrow> u = u' \<and> take 8 f @ CHR ''.'' # e = take 8 f' @ CHR ''.'' # e'"
  unfolding input_path_of_def
  by (subst path_join_cancel) (simp_all add: temp_name_eq)

lemma output_path_eq:
  "output_path_of d u f t = output_path_of d u' f' t'
     \<longleftrightarrow> u = u' \<and> take 8 f @ CHR ''.'' # t = take 8 f' @ CHR ''.'' # t'"
  unfolding output_path_of_def
  by (subst path_join_cancel) (simp_all add: temp_name_eq)

text \<open>
  C4, as the claim states it, fails for two jobs of one user: two different file ids
  that agree on their first eight characters get the same pair of paths, and two target
  formats for one file get the same input path.
\<close>

theorem temp_paths_collide_counterexample:
  "''BQACAgIAAxkBAAIB'' \<noteq> ''BQACAgIAAxkBAAIC''
   \<and> temp_paths ''/tmp'' 42 ''BQACAgIAAxkBAAIB'' ''png'' ''jpg''
       = temp_paths ''/tmp'' 42 ''BQACAgIAAxkBAAIC'' ''png'' ''jpg''
   \<and> ''jpg'' \<noteq> ''webp''
   \<and> fst (temp_paths ''/tmp'' 42 ''BQACAgIAAxkBAAIB'' ''png'' ''jpg'')
       = fst (temp_paths ''/tmp'' 42 ''BQACAgIAAxkBAAIB'' ''png'' ''webp'')"
  by (simp add: temp_paths_def input_path_of_def output_path_of_def)

text \<open>
  C4, amended. The paths of a job are named by the user id, the first eight characters
  of the file id and the extension (the source extension for the input, the target for
  the output). Jobs of two different users never share an input path nor an output
  path. For extensions without a dot, two jobs share the input path exactly when they
  agree on the user, on the first eight characters of the file id and on the source
  extension, and the output path exactly when they agree on the user, on those eight
  characters and on the target format.
\<close>

theorem temp_paths_disjoint_iff:
  "(u \<noteq> u' \<longrightarrow>
      fst (temp_paths d u f e t) \<noteq> fst (temp_paths d u' f' e' t')
    \<and> snd (temp_paths d u f e t) \<noteq> snd (temp_paths d u' f' e' t'))
   \<and> (CHR ''.'' \<notin> set e \<and> CHR ''.'' \<notin> set e' \<longrightarrow>
        (fst (temp_paths d u f e t) = fst (temp_paths d u' f' e' t')
           \<longleftrightarrow> u = u' \<and> take 8 f = take 8 f' \<and> e = e'))
   \<and> (CHR ''.'' \<notin> set t \<and> CHR ''.'' \<notin> set t' \<longrightarrow>
        (snd (temp_paths d u f e t) = snd (temp_paths d u' f' e' t')
           \<longleftrightarrow> u = u' \<and> take 8 f = take 8 f' \<and> t = t'))"
  by (simp add: temp_paths_def input_path_eq output_path_eq split_last_dot)

theorem temp_paths_disjoint_iff_witness:
  "(1 :: int) \<noteq> 2
   \<and> fst (temp_paths ''/tmp'' 1 ''BQACAgIAAxkBAAIB'' ''png'' ''jpg'')
       \<noteq> fst (temp_paths ''/tmp'' 2 ''BQACAgIAAxkBAAIB'' ''png'' ''jpg'')
   \<and> snd (temp_paths ''/tmp'' 1 ''BQACAgIAAxkBAAIB'' ''png'' ''jpg'')
       \<noteq> snd (temp_paths ''/tmp'' 2 ''BQACAgIAAxkBAAIB'' ''png'' ''jpg'')
   \<and> CHR ''.'' \<notin> set ''png'' \<and> CHR ''.'' \<notin> set ''jpg''
   \<and> fst (temp_paths ''/tmp'' 1 ''BQACAgIAAxkBAAIB'' ''png'' ''jpg'')
       \<noteq> fst (temp_paths ''/tmp'' 1 ''CQACAgIAAxkBAAIB'' ''png'' ''jpg'')
   \<and> snd (temp_paths ''/tmp'' 1 ''BQACAgIAAxkBAAIB'' ''png'' ''jpg'')
       \<noteq> snd (temp_paths ''/tmp'' 1 ''BQACAgIAAxkBAAIB'' ''png'' ''webp'')"
  using temp_paths_disjoint_iff [of 1 2 "''/tmp''" "''BQACAgIAAxkBAAIB''" "''png''" "''jpg''"
      "''BQACAgIAAxkBAAIB''" "''png''" "''jpg''"]
    temp_paths_disjoint_iff [of 1 1 "''/tmp''" "''BQACAgIAAxkBAAIB''" "''png''" "''jpg''"
      "''CQACAgIAAxkBAAIB''" "''png''" "''jpg''"]
    temp_paths_disjoint_iff [of 1 1 "''/tmp''" "''BQACAgIAAxkBAAIB''" "''png''" "''jpg''"
      "''BQACAgIAAxkBAAIB''" "''png''" "''webp''"]
  by simp

section \<open>Properties of \<open>handle_conversion\<close>\<close>

lemma split_on_no_sep: "sep \<notin> set s \<Longrightarrow> split_on sep s = [s]"
  by (induction s) auto

lemma split_on_cvt:
  "CHR '':'' \<notin> set target_format \<Longrightarrow>
     split_on CHR '':'' (''cvt:'' @ target_format) = [''cvt'', target_format]"
  by (simp add: split_on_no_sep)

lemma cleanup_files_absent:
  "fs p = None \<Longrightarrow> cleanup_files env paths fs p = None"
  by (induction paths arbitrary: fs) auto

lemma cleanup_files_removes:
  "p \<in> set paths \<Longrightarrow> \<not> remove_raises env p \<Longrightarrow> cleanup_files env paths fs p = None"
proof (induction paths arbitrary: fs)
  case Nil
  then show ?case by simp
next
  case (Cons q paths)
  show ?case
  proof (cases "p = q")
    case True
    with Cons.prems show ?thesis
      by (cases "fs q") (simp_all add: cleanup_files_absent)
  next
    case False
    with Cons show ?thesis by simp
  qed
qed

lemma pending_png_data:
  "get_or (fsm_data pending_png) ''file_id'' [] = ''FILE1''"
  "get_or (fsm_data pending_png) ''file_name'' ''file'' = ''a.png''"
  "get_or (fsm_data pending_png) ''file_extension'' [] = ''png''"
  by (simp_all add: pending_png_def get_or_def)

lemma pending_png_from_process_file:
  "snd (process_file 50 ''FILE1'' ''a.png'' 1000 \<lparr>fsm_state = None, fsm_data = Map.empty\<rparr>)
     = pending_png"
  by (simp add: process_file_def MAX_FILE_SIZE_def extension_of_def path_suffix_def
      path_name_def has_suffix_def after_last_dot_def lower_def lower_char_def lstrip_dot_def
      get_supported_extensions_def FILE_TYPE_MAP_def get_conversion_info_def
      create_format_keyboard_def options_for_def get_file_type_def CONVERSION_OPTIONS_def
      Let_def pending_png_def set_state_def update_data_def)

text \<open>Past the first checks, the handler always ends in its \<open>finally\<close> clause.\<close>

lemma handle_conversion_started:
  assumes "\<not> api_raises env CallbackAnswer" "\<not> api_raises env EditStatus"
    and "split_on CHR '':'' data = [tag, target_format]"
    and "get_or (fsm_data state) ''file_id'' [] = file_id" "file_id \<noteq> []"
    and "get_or (fsm_data state) ''file_extension'' [] = source_extension"
      "source_extension \<noteq> []"
  shows "\<exists>exn1 fs1 evs1.
           try_body env file_id source_extension target_format
             (input_path_of temp_dir user_id file_id source_extension)
             (output_path_of temp_dir user_id file_id target_format)
             (path_stem (get_or (fsm_data state) ''file_name'' ''file'') @ ''.'' @ target_format)
             fs = (exn1, fs1, evs1)
         \<and> handle_conversion env temp_dir user_id data state fs
             = \<lparr>raised = fst (except_clauses env exn1),
                session_after = clear state,
                files_after =
                  cleanup_files env
                    [input_path_of temp_dir user_id file_id source_extension,
                     output_path_of temp_dir user_id file_id target_format] fs1,
                events = Shown EditStatus # evs1 @ snd (except_clauses env exn1)\<rparr>"
proof -
  obtain exn1 fs1 evs1 where
    t: "try_body env file_id source_extension target_format
          (input_path_of temp_dir user_id file_id source_extension)
          (output_path_of temp_dir user_id file_id target_format)
          (path_stem (get_or (fsm_data state) ''file_name'' ''file'') @ ''.'' @ target_format)
          fs = (exn1, fs1, evs1)"
    by (rule prod_cases3)
  have "handle_conversion env temp_dir user_id data state fs
          = \<lparr>raised = fst (except_clauses env exn1),
             session_after = clear state,
             files_after =
               cleanup_files env
                 [input_path_of temp_dir user_id file_id source_extension,
                  output_path_of temp_dir user_id file_id target_format] fs1,
             events = Shown EditStatus # evs1 @ snd (except_clauses env exn1)\<rparr>"
    using assms t
    by (simp add: handle_conversion_def Let_def case_prod_beta del: cleanup_files.simps)
  with t show ?thesis by blast
qed

text \<open>The converters write to the output path only.\<close>

lemma call_tool_frame:
  "p \<noteq> output_path \<Longrightarrow> snd (call_tool env who call output_path fs) p = fs p"
  by (simp add: call_tool_def split: tool_outcome.splits option.splits)

lemma convert_file_frame:
  "p \<noteq> output_path \<Longrightarrow>
     snd (convert_file env fs input_path output_path source_format target_format) p = fs p"
  by (simp add: convert_file_def convert_image_def convert_audio_def convert_video_def
      convert_document_def convert_spreadsheet_def call_tool_frame Let_def
      split: option.splits)

lemma try_body_keeps_input:
  assumes "\<not> api_raises env GetFile" "\<not> api_raises env DownloadFile"
    and "save_outcome env = Saved" "input_path \<noteq> output_path"
  shows "fst (snd (try_body env file_id source_extension target_format input_path output_path
                     output_filename fs)) input_path
           = Some (download env file_id)"
proof -
  have c: "snd (convert_file env (fs(input_path \<mapsto> download env file_id)) input_path
                  output_path source_extension target_format) input_path
             = Some (download env file_id)"
    using convert_file_frame [OF assms(4), of env "fs(input_path \<mapsto> download env file_id)"
        input_path source_extension target_format]
    by simp
  show ?thesis
    using assms(1-3) c
    by (auto simp: try_body_def save_file_from_bytes_def Let_def
        split: prod.splits sum.splits option.splits)
qed

lemma cleanup_files_all_raise:
  "(\<And>p. remove_raises env p) \<Longrightarrow> cleanup_files env paths fs = fs"
  by (induction paths arbitrary: fs) simp_all

lemma input_output_differ:
  "input_path_of temp_dir user_id file_id source_extension
     \<noteq> output_path_of temp_dir user_id file_id' target_format"
  by (simp add: input_path_of_def output_path_of_def path_join_def)

text \<open>
  C3, as the claim states it, fails in two ways. When the call that shows the status
  message raises, which happens before the \<open>try\<close>, the handler is left with the session
  as it was: the request is still pending. And when \<open>os.remove\<close> raises, the input file
  stays where it was.
\<close>

theorem session_not_cleared_counterexample:
  "session_after
     (handle_conversion (quiet_env\<lparr>api_raises := (\<lambda>c. c = EditStatus)\<rparr>) ''/tmp'' 42
        ''cvt:jpg'' pending_png Map.empty)
     = pending_png
   \<and> fsm_state pending_png = Some waiting_for_format
   \<and> raised
       (handle_conversion (quiet_env\<lparr>api_raises := (\<lambda>c. c = EditStatus)\<rparr>) ''/tmp'' 42
          ''cvt:jpg'' pending_png Map.empty)
       = Some OtherException
   \<and> files_after
       (handle_conversion (quiet_env\<lparr>remove_raises := (\<lambda>_. True)\<rparr>) ''/tmp'' 42
          ''cvt:jpg'' pending_png Map.empty)
       (input_path_of ''/tmp'' 42 ''FILE1'' ''png'')
       = Some [1, 2, 3, 4]"
proof -
  have a: "session_after
     (handle_conversion (quiet_env\<lparr>api_raises := (\<lambda>c. c = EditStatus)\<rparr>) ''/tmp'' 42
        ''cvt:jpg'' pending_png Map.empty)
     = pending_png"
    by (simp add: handle_conversion_def quiet_env_def pending_png_data Let_def)
  have b: "raised
       (handle_conversion (quiet_env\<lparr>api_raises := (\<lambda>c. c = EditStatus)\<rparr>) ''/tmp'' 42
          ''cvt:jpg'' pending_png Map.empty)
       = Some OtherException"
    by (simp add: handle_conversion_def quiet_env_def pending_png_data Let_def)
  let ?env = "quiet_env\<lparr>remove_raises := (\<lambda>_. True)\<rparr>"
  have e: "\<not> api_raises ?env CallbackAnswer" "\<not> api_raises ?env EditStatus"
    "\<not> api_raises ?env GetFile" "\<not> api_raises ?env DownloadFile"
    "save_outcome ?env = Saved" "download ?env ''FILE1'' = [1, 2, 3, 4]"
    "\<And>p. remove_raises ?env p"
    by (simp_all add: quiet_env_def)
  have s: "split_on CHR '':'' ''cvt:jpg'' = [''cvt'', ''jpg'']"
    by simp
  from handle_conversion_started [OF e(1) e(2) s pending_png_data(1) _ pending_png_data(3),
      of "''/tmp''" 42 Map.empty]
  obtain exn1 fs1 evs1 where
    t: "try_body ?env ''FILE1'' ''png'' ''jpg'' (input_path_of ''/tmp'' 42 ''FILE1'' ''png'')
          (output_path_of ''/tmp'' 42 ''FILE1'' ''jpg'')
          (path_stem (get_or (fsm_data pending_png) ''file_name'' ''file'') @ ''.'' @ ''jpg'')
          Map.empty = (exn1, fs1, evs1)" and
    h: "files_after (handle_conversion ?env ''/tmp'' 42 ''cvt:jpg'' pending_png Map.empty)
          = cleanup_files ?env
              [input_path_of ''/tmp'' 42 ''FILE1'' ''png'',
               output_path_of ''/tmp'' 42 ''FILE1'' ''jpg''] fs1"
    by (auto simp del: cleanup_files.simps)
  have "fst (snd (try_body ?env ''FILE1'' ''png'' ''jpg''
                     (input_path_of ''/tmp'' 42 ''FILE1'' ''png'')
                     (output_path_of ''/tmp'' 42 ''FILE1'' ''jpg'')
                     (path_stem (get_or (fsm_data pending_png) ''file_name'' ''file'')
                        @ ''.'' @ ''jpg'')
                     Map.empty))
          (input_path_of ''/tmp'' 42 ''FILE1'' ''png'')
          = Some (download ?env ''FILE1'')"
    by (rule try_body_keeps_input [OF e(3) e(4) e(5) input_output_differ])
  then have "fs1 (input_path_of ''/tmp'' 42 ''FILE1'' ''png'') = Some [1, 2, 3, 4]"
    by (simp only: t e(6) fst_conv snd_conv)
  then have c: "files_after
       (handle_conversion ?env ''/tmp'' 42 ''cvt:jpg'' pending_png Map.empty)
       (input_path_of ''/tmp'' 42 ''FILE1'' ''png'')
       = Some [1, 2, 3, 4]"
    unfolding h by (simp add: cleanup_files_all_raise [OF e(7)])
  show ?thesis
    using a b c by (simp add: pending_png_def)
qed

text \<open>
  C3, amended. Once the handler has shown its status message (the callback was
  answered, its data has two parts, and the stored request has a file id and an
  extension), whatever happens afterwards (delivery, a conversion error or any other
  exception): the session is cleared, and each of the two paths of the job is absent
  afterwards unless its removal raised, in which case the failure is only logged.
\<close>

theorem attempt_always_cleans_up:
  assumes "\<not> api_raises env CallbackAnswer" "\<not> api_raises env EditStatus"
    and "split_on CHR '':'' data = [tag, target_format]"
    and "get_or (fsm_data state) ''file_id'' [] = file_id" "file_id \<noteq> []"
    and "get_or (fsm_data state) ''file_extension'' [] = source_extension"
      "source_extension \<noteq> []"
  shows "session_after (handle_conversion env temp_dir user_id data state fs)
           = \<lparr>fsm_state = None, fsm_data = Map.empty\<rparr>
         \<and> (\<not> remove_raises env (input_path_of temp_dir user_id file_id source_extension) \<longrightarrow>
              files_after (handle_conversion env temp_dir user_id data state fs)
                (input_path_of temp_dir user_id file_id source_extension) = None)
         \<and> (\<not> remove_raises env (output_path_of temp_dir user_id file_id target_format) \<longrightarrow>
              files_after (handle_conversion env temp_dir user_id data state fs)
                (output_path_of temp_dir user_id file_id target_format) = None)"
proof -
  from handle_conversion_started [OF assms, of temp_dir user_id fs]
  obtain exn1 fs1 evs1 where
    h: "handle_conversion env temp_dir user_id data state fs
          = \<lparr>raised = fst (except_clauses env exn1),
             session_after = clear state,
             files_after =
               cleanup_files env
                 [input_path_of temp_dir user_id file_id source_extension,
                  output_path_of temp_dir user_id file_id target_format] fs1,
             events = Shown EditStatus # evs1 @ snd (except_clauses env exn1)\<rparr>"
    by blast
  show ?thesis
    unfolding h by (simp add: clear_def cleanup_files_removes)
qed

text \<open>
  The witness: the converter fails and leaves a partial output file behind; the
  session is cleared and both paths are gone.
\<close>

theorem attempt_always_cleans_up_witness:
  "\<not> api_raises (quiet_env\<lparr>run_tool := (\<lambda>_. Failed (Some [9]))\<rparr>) CallbackAnswer
   \<and> \<not> api_raises (quiet_env\<lparr>run_tool := (\<lambda>_. Failed (Some [9]))\<rparr>) EditStatus
   \<and> split_on CHR '':'' ''cvt:jpg'' = [''cvt'', ''jpg'']
   \<and> get_or (fsm_data pending_png) ''file_id'' [] = ''FILE1'' \<and> ''FILE1'' \<noteq> []
   \<and> get_or (fsm_data pending_png) ''file_extension'' [] = ''png'' \<and> ''png'' \<noteq> []
   \<and> session_after
        (handle_conversion (quiet_env\<lparr>run_tool := (\<lambda>_. Failed (Some [9]))\<rparr>) ''/tmp'' 42
           ''cvt:jpg'' pending_png Map.empty)
       = \<lparr>fsm_state = None, fsm_data = Map.empty\<rparr>
   \<and> \<not> remove_raises (quiet_env\<lparr>run_tool := (\<lambda>_. Failed (Some [9]))\<rparr>)
         (input_path_of ''/tmp'' 42 ''FILE1'' ''png'')
   \<and> files_after
        (handle_conversion (quiet_env\<lparr>run_tool := (\<lambda>_. Failed (Some [9]))\<rparr>) ''/tmp'' 42
           ''cvt:jpg'' pending_png Map.empty)
        (input_path_of ''/tmp'' 42 ''FILE1'' ''png'') = None
   \<and> \<not> remove_raises (quiet_env\<lparr>run_tool := (\<lambda>_. Failed (Some [9]))\<rparr>)
         (output_path_of ''/tmp'' 42 ''FILE1'' ''jpg'')
   \<and> files_after
        (handle_conversion (quiet_env\<lparr>run_tool := (\<lambda>_. Failed (Some [9]))\<rparr>) ''/tmp'' 42
           ''cvt:jpg'' pending_png Map.empty)
        (output_path_of ''/tmp'' 42 ''FILE1'' ''jpg'') = None"
proof -
  let ?env = "quiet_env\<lparr>run_tool := (\<lambda>_. Failed (Some [9]))\<rparr>"
  have q: "\<not> api_raises ?env CallbackAnswer" "\<not> api_raises ?env EditStatus"
    "\<not> remove_raises ?env p" for p
    by (simp_all add: quiet_env_def)
  have s: "split_on CHR '':'' ''cvt:jpg'' = [''cvt'', ''jpg'']"
    by simp
  have n: "''FILE1'' \<noteq> []" "''png'' \<noteq> []"
    by simp_all
  show ?thesis
    using attempt_always_cleans_up [OF q(1) q(2) s pending_png_data(1) n(1)
        pending_png_data(3) n(2), of "''/tmp''" 42 Map.empty]
      q s pending_png_data
    by (simp del: cleanup_files.simps split_on.simps)
qed

section \<open>The chosen target is not validated\<close>

text \<open>What a run shows and dispatches.\<close>

lemma try_body_dispatches:
  assumes "\<not> api_raises env GetFile" "\<not> api_raises env DownloadFile"
    and "save_outcome env = Saved" "\<not> api_raises env EditConverting"
  shows "Dispatched input_path output_path source_extension target_format
           \<in> set (snd (snd (try_body env file_id source_extension target_format input_path
                               output_path output_filename fs)))"
  using assms
  by (auto simp: try_body_def save_file_from_bytes_def Let_def
      split: prod.splits sum.splits option.splits)

lemma try_body_never_lost:
  "Shown EditLost
     \<notin> set (snd (snd (try_body env file_id source_extension target_format input_path
                         output_path output_filename fs)))"
  by (auto simp: try_body_def save_file_from_bytes_def Let_def
      split: prod.splits sum.splits option.splits save_outcome.splits)

lemma except_clauses_never_lost: "Shown EditLost \<notin> set (snd (except_clauses env exn1))"
  by (simp add: except_clauses_def split: option.splits exn.splits)

lemma get_file_type_png: "get_file_type ''png'' = Some ''image''"
  by (simp add: get_file_type_def FILE_TYPE_MAP_def lower_def lower_char_def)

lemma convert_file_quiet_png:
  "fs input_path = Some content \<Longrightarrow>
     convert_file quiet_env fs input_path output_path ''png'' target_format
       = (Inr output_path, fs(output_path \<mapsto> [7]))"
  by (simp add: convert_file_def get_file_type_png convert_image_def call_tool_def quiet_env_def)

lemma try_body_quiet_png:
  assumes "input_path \<noteq> output_path"
  shows "try_body quiet_env file_id ''png'' target_format input_path output_path
           output_filename fs
         = (None, fs(input_path \<mapsto> [1, 2, 3, 4], output_path \<mapsto> [7]),
            [Shown EditConverting,
             Dispatched input_path output_path ''png'' target_format,
             Shown EditUploading,
             Delivered output_filename [7],
             Shown EditDone])"
proof -
  have q: "\<not> api_raises quiet_env c" "save_outcome quiet_env = Saved"
    "download quiet_env file_id = [1, 2, 3, 4]" for c
    by (simp_all add: quiet_env_def)
  have c: "convert_file quiet_env (fs(input_path \<mapsto> [1, 2, 3, 4])) input_path output_path
             ''png'' target_format
           = (Inr output_path, fs(input_path \<mapsto> [1, 2, 3, 4], output_path \<mapsto> [7]))"
    by (rule convert_file_quiet_png) simp
  show ?thesis
    by (simp add: try_body_def save_file_from_bytes_def q c Let_def)
qed

lemma path_stem_a_png: "path_stem ''a.png'' = ''a''"
  by (simp add: path_stem_def path_name_def has_suffix_def after_last_dot_def)

lemma legal_targets_png: "legal_targets ''png'' = [''jpg'', ''webp'', ''bmp'', ''pdf'']"
  by (simp add: legal_targets_def create_format_keyboard_def options_for_def get_file_type_png
      lower_def lower_char_def lstrip_dot_def CONVERSION_OPTIONS_def keyboard_formats_def Let_def
      exclude_formats_def keyboard_targets_def format_button_def cancel_button_def)

lemma legal_targets_jpg_pdf:
  "legal_targets ''jpg'' = [''png'', ''webp'', ''bmp'', ''pdf'']"
  "legal_targets ''pdf'' = [''txt'', ''docx'']"
  by (simp_all add: legal_targets_def create_format_keyboard_def options_for_def
      get_file_type_def FILE_TYPE_MAP_def
      lower_def lower_char_def lstrip_dot_def CONVERSION_OPTIONS_def keyboard_formats_def Let_def
      exclude_formats_def keyboard_targets_def format_button_def cancel_button_def)

text \<open>
  C2, as the claim states it, fails: the target \<open>png\<close> is not among the legal targets
  of the stored source extension \<open>png\<close> (it is legal for a \<open>jpg\<close> source, so the button
  of an earlier keyboard carries it), yet the handler dispatches the conversion of the
  stored file to \<open>png\<close> and delivers the result.
\<close>

theorem illegal_target_dispatched_counterexample:
  "''png'' \<notin> set (legal_targets ''png'')
   \<and> ''png'' \<in> set (legal_targets ''jpg'')
   \<and> events (handle_conversion quiet_env ''/tmp'' 42 ''cvt:png'' pending_png Map.empty)
       = [Shown EditStatus,
          Shown EditConverting,
          Dispatched (input_path_of ''/tmp'' 42 ''FILE1'' ''png'')
            (output_path_of ''/tmp'' 42 ''FILE1'' ''png'') ''png'' ''png'',
          Shown EditUploading,
          Delivered ''a.png'' [7],
          Shown EditDone]"
proof -
  have q: "\<not> api_raises quiet_env CallbackAnswer" "\<not> api_raises quiet_env EditStatus"
    by (simp_all add: quiet_env_def)
  have s: "split_on CHR '':'' ''cvt:png'' = [''cvt'', ''png'']"
    by simp
  from handle_conversion_started [OF q s pending_png_data(1) _ pending_png_data(3),
      of "''/tmp''" 42 Map.empty]
  obtain exn1 fs1 evs1 where
    t: "try_body quiet_env ''FILE1'' ''png'' ''png'' (input_path_of ''/tmp'' 42 ''FILE1'' ''png'')
          (output_path_of ''/tmp'' 42 ''FILE1'' ''png'')
          (path_stem (get_or (fsm_data pending_png) ''file_name'' ''file'') @ ''.'' @ ''png'')
          Map.empty = (exn1, fs1, evs1)" and
    h: "events (handle_conversion quiet_env ''/tmp'' 42 ''cvt:png'' pending_png Map.empty)
          = Shown EditStatus # evs1 @ snd (except_clauses quiet_env exn1)"
    by (auto simp del: cleanup_files.simps)
  from t have "exn1 = None"
    and "evs1 = [Shown EditConverting,
                 Dispatched (input_path_of ''/tmp'' 42 ''FILE1'' ''png'')
                   (output_path_of ''/tmp'' 42 ''FILE1'' ''png'') ''png'' ''png'',
                 Shown EditUploading,
                 Delivered ''a.png'' [7],
                 Shown EditDone]"
    by (simp_all add: try_body_quiet_png [OF input_output_differ] pending_png_data
        path_stem_a_png)
  with h show ?thesis
    by (simp add: except_clauses_def legal_targets_png legal_targets_jpg_pdf)
qed

text \<open>
  C2, amended. The handler never compares the chosen target with a set of legal
  targets. It answers that the file information is lost, clears the session and
  dispatches nothing exactly in the case that the stored request lacks the file id or the
  source extension; with both stored, that answer is never given, and for every target
  format (legal for the source or not) the conversion is dispatched with the stored
  source extension and the chosen target once the file has been downloaded and saved.
\<close>

theorem target_not_validated:
  "(get_or (fsm_data state) ''file_id'' [] \<noteq> []
      \<and> get_or (fsm_data state) ''file_extension'' [] \<noteq> [] \<longrightarrow>
      Shown EditLost \<notin> set (events (handle_conversion env temp_dir user_id data state fs)))
   \<and> (\<not> api_raises env CallbackAnswer \<and> \<not> api_raises env EditStatus
        \<and> \<not> api_raises env GetFile \<and> \<not> api_raises env DownloadFile
        \<and> save_outcome env = Saved \<and> \<not> api_raises env EditConverting
        \<and> CHR '':'' \<notin> set target_format
        \<and> get_or (fsm_data state) ''file_id'' [] \<noteq> []
        \<and> get_or (fsm_data state) ''file_extension'' [] \<noteq> [] \<longrightarrow>
        Dispatched
          (input_path_of temp_dir user_id (get_or (fsm_data state) ''file_id'' [])
             (get_or (fsm_data state) ''file_extension'' []))
          (output_path_of temp_dir user_id (get_or (fsm_data state) ''file_id'' [])
             target_format)
          (get_or (fsm_data state) ''file_extension'' []) target_format
          \<in> set (events (handle_conversion env temp_dir user_id (''cvt:'' @ target_format)
                           state fs)))
   \<and> (\<not> api_raises env CallbackAnswer \<and> \<not> api_raises env EditLost
        \<and> CHR '':'' \<notin> set target_format
        \<and> (get_or (fsm_data state) ''file_id'' [] = []
             \<or> get_or (fsm_data state) ''file_extension'' [] = []) \<longrightarrow>
        events (handle_conversion env temp_dir user_id (''cvt:'' @ target_format) state fs)
          = [Shown EditLost]
        \<and> session_after (handle_conversion env temp_dir user_id (''cvt:'' @ target_format)
                           state fs)
            = \<lparr>fsm_state = None, fsm_data = Map.empty\<rparr>)"
proof (intro conjI impI)
  assume "get_or (fsm_data state) ''file_id'' [] \<noteq> []
            \<and> get_or (fsm_data state) ''file_extension'' [] \<noteq> []"
  then show "Shown EditLost
               \<notin> set (events (handle_conversion env temp_dir user_id data state fs))"
    using try_body_never_lost [of env] except_clauses_never_lost [of env]
    by (simp add: handle_conversion_def Let_def case_prod_beta del: cleanup_files.simps)
next
  assume a: "\<not> api_raises env CallbackAnswer \<and> \<not> api_raises env EditStatus
        \<and> \<not> api_raises env GetFile \<and> \<not> api_raises env DownloadFile
        \<and> save_outcome env = Saved \<and> \<not> api_raises env EditConverting
        \<and> CHR '':'' \<notin> set target_format
        \<and> get_or (fsm_data state) ''file_id'' [] \<noteq> []
        \<and> get_or (fsm_data state) ''file_extension'' [] \<noteq> []"
  then have s: "split_on CHR '':'' (''cvt:'' @ target_format) = [''cvt'', target_format]"
    by (simp add: split_on_no_sep)
  from a have n: "\<not> api_raises env CallbackAnswer" "\<not> api_raises env EditStatus"
    "get_or (fsm_data state) ''file_id'' [] \<noteq> []"
    "get_or (fsm_data state) ''file_extension'' [] \<noteq> []"
    by simp_all
  from handle_conversion_started [OF n(1) n(2) s refl n(3) refl n(4), of temp_dir user_id fs]
  obtain exn1 fs1 evs1 where
    t: "try_body env (get_or (fsm_data state) ''file_id'' [])
          (get_or (fsm_data state) ''file_extension'' []) target_format
          (input_path_of temp_dir user_id (get_or (fsm_data state) ''file_id'' [])
             (get_or (fsm_data state) ''file_extension'' []))
          (output_path_of temp_dir user_id (get_or (fsm_data state) ''file_id'' [])
             target_format)
          (path_stem (get_or (fsm_data state) ''file_name'' ''file'') @ ''.'' @ target_format)
          fs = (exn1, fs1, evs1)" and
    h: "events (handle_conversion env temp_dir user_id (''cvt:'' @ target_format) state fs)
          = Shown EditStatus # evs1 @ snd (except_clauses env exn1)"
    by (auto simp del: cleanup_files.simps)
  from a have "Dispatched
          (input_path_of temp_dir user_id (get_or (fsm_data state) ''file_id'' [])
             (get_or (fsm_data state) ''file_extension'' []))
          (output_path_of temp_dir user_id (get_or (fsm_data state) ''file_id'' [])
             target_format)
          (get_or (fsm_data state) ''file_extension'' []) target_format
          \<in> set (snd (snd (try_body env (get_or (fsm_data state) ''file_id'' [])
          (get_or (fsm_data state) ''file_extension'' []) target_format
          (input_path_of temp_dir user_id (get_or (fsm_data state) ''file_id'' [])
             (get_or (fsm_data state) ''file_extension'' []))
          (output_path_of temp_dir user_id (get_or (fsm_data state) ''file_id'' [])
             target_format)
          (path_stem (get_or (fsm_data state) ''file_name'' ''file'') @ ''.'' @ target_format)
          fs)))"
    by (intro try_body_dispatches) simp_all
  then show "Dispatched
          (input_path_of temp_dir user_id (get_or (fsm_data state) ''file_id'' [])
             (get_or (fsm_data state) ''file_extension'' []))
          (output_path_of temp_dir user_id (get_or (fsm_data state) ''file_id'' [])
             target_format)
          (get_or (fsm_data state) ''file_extension'' []) target_format
          \<in> set (events (handle_conversion env temp_dir user_id (''cvt:'' @ target_format)
                           state fs))"
    unfolding h t by simp
next
  assume a: "\<not> api_raises env CallbackAnswer \<and> \<not> api_raises env EditLost
        \<and> CHR '':'' \<notin> set target_format
        \<and> (get_or (fsm_data state) ''file_id'' [] = []
             \<or> get_or (fsm_data state) ''file_extension'' [] = [])"
  then have s: "split_on CHR '':'' (''cvt:'' @ target_format) = [''cvt'', target_format]"
    by (simp add: split_on_no_sep)
  from a show "events (handle_conversion env temp_dir user_id (''cvt:'' @ target_format)
                         state fs) = [Shown EditLost]"
    by (auto simp: handle_conversion_def s Let_def simp del: append.simps split_on.simps)
  from a show "session_after (handle_conversion env temp_dir user_id (''cvt:'' @ target_format)
                           state fs)
            = \<lparr>fsm_state = None, fsm_data = Map.empty\<rparr>"
    by (auto simp: handle_conversion_def s Let_def clear_def
        simp del: append.simps split_on.simps)
qed

text \<open>
  The witness: the stored request for \<open>a.png\<close> and the target \<open>docx\<close>, which is legal
  for a PDF source and not for \<open>png\<close>; and a session with no stored request.
\<close>

theorem target_not_validated_witness:
  "''docx'' \<notin> set (legal_targets ''png'') \<and> ''docx'' \<in> set (legal_targets ''pdf'')
   \<and> get_or (fsm_data pending_png) ''file_id'' [] \<noteq> []
   \<and> get_or (fsm_data pending_png) ''file_extension'' [] \<noteq> []
   \<and> \<not> api_raises quiet_env CallbackAnswer \<and> \<not> api_raises quiet_env EditStatus
   \<and> \<not> api_raises quiet_env GetFile \<and> \<not> api_raises quiet_env DownloadFile
   \<and> save_outcome quiet_env = Saved \<and> \<not> api_raises quiet_env EditConverting
   \<and> \<not> api_raises quiet_env EditLost
   \<and> CHR '':'' \<notin> set ''docx''
   \<and> Shown EditLost
       \<notin> set (events (handle_conversion quiet_env ''/tmp'' 42 ''cvt:docx'' pending_png Map.empty))
   \<and> Dispatched (input_path_of ''/tmp'' 42 ''FILE1'' ''png'')
         (output_path_of ''/tmp'' 42 ''FILE1'' ''docx'') ''png'' ''docx''
       \<in> set (events (handle_conversion quiet_env ''/tmp'' 42 ''cvt:docx'' pending_png Map.empty))
   \<and> get_or (fsm_data \<lparr>fsm_state = None, fsm_data = Map.empty\<rparr>) ''file_id'' [] = []
   \<and> events (handle_conversion quiet_env ''/tmp'' 42 ''cvt:docx''
                \<lparr>fsm_state = None, fsm_data = Map.empty\<rparr> Map.empty)
       = [Shown EditLost]
   \<and> session_after (handle_conversion quiet_env ''/tmp'' 42 ''cvt:docx''
                       \<lparr>fsm_state = None, fsm_data = Map.empty\<rparr> Map.empty)
       = \<lparr>fsm_state = None, fsm_data = Map.empty\<rparr>"
proof -
  have q: "\<not> api_raises quiet_env c" "save_outcome quiet_env = Saved" for c
    by (simp_all add: quiet_env_def)
  have e: "get_or (fsm_data \<lparr>fsm_state = None, fsm_data = Map.empty\<rparr>) ''file_id'' [] = []"
    by (simp add: get_or_def)
  have c: "''cvt:docx'' = ''cvt:'' @ ''docx''"
    by simp
  show ?thesis
    using
      target_not_validated [where state = pending_png and env = quiet_env
        and temp_dir = "''/tmp''" and user_id = 42 and data = "''cvt:docx''"
        and fs = Map.empty and target_format = "''docx''"]
      target_not_validated [where state = "\<lparr>fsm_state = None, fsm_data = Map.empty\<rparr>"
        and env = quiet_env and temp_dir = "''/tmp''" and user_id = 42
        and data = "''cvt:docx''" and fs = Map.empty and target_format = "''docx''"]
    unfolding c [symmetric]
    by (simp add: q e get_or_def [of Map.empty] pending_png_data legal_targets_png
        legal_targets_jpg_pdf del: cleanup_files.simps)
qed

end
